theory Spec2Isabelle
  imports Main "HOL-Library.AList" "HOL-Library.Char_ord" "HOL-Library.List_Lexorder"
begin

section \<open>JavaScript values\<close>

text \<open>
  The sources are TypeScript. Fields typed \<open>any\<close> are modelled by a small value
  type; nested objects are opaque (only their truthiness and their type tag are ever
  inspected by the code modelled here). Numbers are integers: every number read by the
  code below is a version counter, a retry counter or a millisecond timestamp.
\<close>

datatype jsval = JUndefined | JNull | JBool bool | JNum int | JStr string | JObj string

fun truthy :: "jsval \<Rightarrow> bool" where
  "truthy JUndefined = False"
| "truthy JNull = False"
| "truthy (JBool b) = b"
| "truthy (JNum n) = (n \<noteq> 0)"
| "truthy (JStr s) = (s \<noteq> [])"
| "truthy (JObj _) = True"

text \<open>\<open>x || d\<close> on numbers: \<open>0\<close> is falsy.\<close>

definition num_or :: "int \<Rightarrow> int \<Rightarrow> int" where
  "num_or x d = (if x = 0 then d else x)"

text \<open>Truthiness of an optional string field (\<open>undefined\<close> and \<open>''\<close> are falsy).\<close>

fun str_truthy :: "string option \<Rightarrow> bool" where
  "str_truthy None = False"
| "str_truthy (Some s) = (s \<noteq> [])"


section \<open>Offline store (docs/R3A\_OFFLINE\_FIRST\_REPORT.md, src/offline/db)\<close>

text \<open>The \<open>_meta\<close> block stamped on every stored record.\<close>

record meta =
  createdAt :: int
  updatedAt :: int
  version :: int
  deleted :: bool

text \<open>
  An item handed to the repository (\<open>T extends { id: string }\<close>): its id, its other
  properties, and the \<open>_meta\<close> block it may carry (a remote change carries one, a
  fresh local item does not).
\<close>

record item =
  item_id :: string
  item_props :: "string \<rightharpoonup> jsval"
  item_meta :: "meta option"

text \<open>
  A record as the repository reads it back. The store is written only through
  \<open>put\<close> and \<open>delete\<close> of the repository, so a stored record always has \<open>_meta\<close>.
\<close>

record doc =
  doc_id :: string
  doc_props :: "string \<rightharpoonup> jsval"
  doc_meta :: meta

definition doc_item :: "doc \<Rightarrow> item" where
  "doc_item d = \<lparr>item_id = doc_id d, item_props = doc_props d, item_meta = Some (doc_meta d)\<rparr>"

definition item_doc :: "item \<Rightarrow> meta \<Rightarrow> doc" where
  "item_doc it m = \<lparr>doc_id = item_id it, doc_props = item_props it, doc_meta = m\<rparr>"

text \<open>
  The object store has keyPath \<open>id\<close>: the key of an entry is the \<open>id\<close> property of
  the object stored, so an entry is kept as the key with the rest of the object.
\<close>

record stored =
  st_props :: "string \<rightharpoonup> jsval"
  st_meta :: meta

definition doc_of :: "string \<Rightarrow> stored \<Rightarrow> doc" where
  "doc_of i s = \<lparr>doc_id = i, doc_props = st_props s, doc_meta = st_meta s\<rparr>"

datatype mutation_kind = Create | Update | Delete

record mutation =
  mut_id :: string
  mut_type :: mutation_kind
  mut_collection :: string
  mut_data :: jsval
  mut_timestamp :: int
  retryCount :: int
  mut_error :: "string option"

text \<open>
  The IndexedDB database: the object store the repository is bound to (keyPath \<open>id\<close>)
  and the \<open>pendingMutations\<close> store (keyPath \<open>id\<close>). A store is an association list
  with unique keys; \<open>db.put\<close> replaces the entry under the key or adds it, and
  \<open>db.getAll\<close> returns the entries in ascending order of their keys (strings compare
  character by character, a proper prefix first).
\<close>

record offline_db =
  documents :: "(string \<times> stored) list"
  pendingMutations :: "(string \<times> mutation) list"

definition empty_db :: offline_db where
  "empty_db = \<lparr>documents = [], pendingMutations = []\<rparr>"

subsection \<open>OfflineRepository\<close>

definition repo_get :: "offline_db \<Rightarrow> string \<Rightarrow> doc option" where
  "repo_get db i = map_option (doc_of i) (map_of (documents db) i)"

definition repo_getAll :: "offline_db \<Rightarrow> doc list" where
  "repo_getAll db = map (\<lambda>(i, s). doc_of i s) (sort_key fst (documents db))"

text \<open>
  \<open>put(item)\<close>: \<open>createdAt: existingItem?._meta?.createdAt || now\<close>,
  \<open>updatedAt: now\<close>, \<open>version: (existingItem?._meta?.version || 0) + 1\<close>,
  \<open>deleted: false\<close>; then one \<open>db.put\<close> into the repository's store. The \<open>_meta\<close>
  of the item itself is overwritten by the spread.
\<close>

definition repo_put :: "int \<Rightarrow> item \<Rightarrow> offline_db \<Rightarrow> offline_db" where
  "repo_put now it db =
     (let existingItem = repo_get db (item_id it);
          m = \<lparr>createdAt = (case existingItem of None \<Rightarrow> now
                              | Some e \<Rightarrow> num_or (createdAt (doc_meta e)) now),
               updatedAt = now,
               version = (case existingItem of None \<Rightarrow> 0
                            | Some e \<Rightarrow> num_or (version (doc_meta e)) 0) + 1,
               deleted = False\<rparr>
      in db\<lparr>documents :=
              AList.update (item_id it) \<lparr>st_props = item_props it, st_meta = m\<rparr>
                (documents db)\<rparr>)"

text \<open>
  \<open>delete(id)\<close>: when the item exists it is written back with
  \<open>_meta: {...item._meta, updatedAt: Date.now(), deleted: true}\<close>; otherwise nothing
  happens.
\<close>

definition repo_delete :: "int \<Rightarrow> string \<Rightarrow> offline_db \<Rightarrow> offline_db" where
  "repo_delete now i db =
     (case repo_get db i of
        None \<Rightarrow> db
      | Some it \<Rightarrow>
          db\<lparr>documents :=
               AList.update (doc_id it)
                 \<lparr>st_props = doc_props it,
                  st_meta = (doc_meta it)\<lparr>updatedAt := now, deleted := True\<rparr>\<rparr>
                 (documents db)\<rparr>)"

definition repo_clear :: "offline_db \<Rightarrow> offline_db" where
  "repo_clear db = db\<lparr>documents := []\<rparr>"

subsection \<open>ConflictResolver\<close>

datatype strategy = LastWriteWins | FirstWriteWins | Manual | OperationalTransform

definition lastWriteWins :: "doc \<Rightarrow> doc \<Rightarrow> doc" where
  "lastWriteWins local remote =
     (if updatedAt (doc_meta local) > updatedAt (doc_meta remote) then local else remote)"

definition firstWriteWins :: "doc \<Rightarrow> doc \<Rightarrow> doc" where
  "firstWriteWins local remote =
     (if updatedAt (doc_meta local) < updatedAt (doc_meta remote) then local else remote)"

definition mergeText :: "string \<Rightarrow> string \<Rightarrow> string" where
  "mergeText local remote =
     (if local = remote then local
      else ''<<<<<<< LOCAL'' @ [CHR 0x0A] @ local @ [CHR 0x0A] @ ''======='' @ [CHR 0x0A]
           @ remote @ [CHR 0x0A] @ ''>>>>>>> REMOTE'')"

text \<open>
  \<open>operationalTransform\<close>: start from a copy of \<open>remote\<close>; every key of \<open>local\<close>
  whose value is a string on both sides is replaced by \<open>mergeText\<close> (the loop treats
  each key on its own, so it is written pointwise; \<open>id\<close> is such a key); then
  \<open>_meta\<close> is \<open>remote._meta\<close> with \<open>version: max(local, remote) + 1\<close> and
  \<open>updatedAt: Date.now()\<close>.
\<close>

definition operationalTransform :: "int \<Rightarrow> doc \<Rightarrow> doc \<Rightarrow> doc" where
  "operationalTransform now local remote =
     \<lparr>doc_id = mergeText (doc_id local) (doc_id remote),
      doc_props = (\<lambda>key. case (doc_props local key, doc_props remote key) of
                      (Some (JStr l), Some (JStr r)) \<Rightarrow> Some (JStr (mergeText l r))
                    | _ \<Rightarrow> doc_props remote key),
      doc_meta = (doc_meta remote)
                   \<lparr>version := max (version (doc_meta local)) (version (doc_meta remote)) + 1,
                    updatedAt := now\<rparr>\<rparr>"

text \<open>
  \<open>resolve\<close> returns a promise. For \<open>manual\<close> the promise is settled by whoever
  handles the \<open>conflict-detected\<close> window event, with a value of their choosing, or
  never: the handler is the parameter \<open>ui\<close>, and \<open>None\<close> is a promise that never
  settles.
\<close>

definition resolve :: "strategy \<Rightarrow> (doc \<Rightarrow> doc \<Rightarrow> doc option) \<Rightarrow> int \<Rightarrow> doc \<Rightarrow> doc \<Rightarrow> doc option" where
  "resolve strat ui now local remote =
     (case strat of
        LastWriteWins \<Rightarrow> Some (lastWriteWins local remote)
      | FirstWriteWins \<Rightarrow> Some (firstWriteWins local remote)
      | OperationalTransform \<Rightarrow> Some (operationalTransform now local remote)
      | Manual \<Rightarrow> ui local remote)"

subsection \<open>SyncManager\<close>

datatype 'a outcome = Done 'a | Throws string | NeverSettles

definition conflict_warning :: "string \<Rightarrow> string" where
  "conflict_warning i = ''Conflict detected for item: '' @ i"

text \<open>
  \<open>applyRemoteChange(change)\<close>. Besides how its promise ended, the model returns
  what it wrote to the console, the calls it made to \<open>conflictResolver.resolve\<close> and
  the calls it made to \<open>repository.put\<close> (with their arguments), so that they can be
  observed. \<open>change._meta.version\<close> on a change without \<open>_meta\<close> is a
  \<open>TypeError\<close>. A promise that ends in \<open>Throws\<close> or \<open>NeverSettles\<close> has written
  nothing: the store is as it was. The time stamp the resolver may set is discarded by
  \<open>put\<close>, so one clock value serves both.
\<close>

record apply_result =
  console :: "string list"
  resolver_calls :: "(doc \<times> doc) list"
  put_calls :: "item list"
  result :: "offline_db outcome"

definition applyRemoteChange ::
  "strategy \<Rightarrow> (doc \<Rightarrow> doc \<Rightarrow> doc option) \<Rightarrow> int \<Rightarrow> item \<Rightarrow> offline_db \<Rightarrow> apply_result" where
  "applyRemoteChange strat ui now change db =
     (case repo_get db (item_id change) of
        None \<Rightarrow>
          \<lparr>console = [], resolver_calls = [], put_calls = [change],
           result = Done (repo_put now change db)\<rparr>
      | Some localItem \<Rightarrow>
          (case item_meta change of
             None \<Rightarrow>
               \<lparr>console = [], resolver_calls = [], put_calls = [],
                result = Throws ''TypeError''\<rparr>
           | Some cm \<Rightarrow>
               if version (doc_meta localItem) \<noteq> version cm - 1 then
                 (case resolve strat ui now localItem (item_doc change cm) of
                    None \<Rightarrow>
                      \<lparr>console = [conflict_warning (item_id change)],
                       resolver_calls = [(localItem, item_doc change cm)],
                       put_calls = [], result = NeverSettles\<rparr>
                  | Some resolved \<Rightarrow>
                      \<lparr>console = [conflict_warning (item_id change)],
                       resolver_calls = [(localItem, item_doc change cm)],
                       put_calls = [doc_item resolved],
                       result = Done (repo_put now (doc_item resolved) db)\<rparr>)
               else
                 \<lparr>console = [], resolver_calls = [], put_calls = [change],
                  result = Done (repo_put now change db)\<rparr>))"











subsection \<open>NetworkMonitor\<close>

datatype net_event = EvOnline | EvOffline

record network_monitor =
  online :: bool
  nm_emitted :: "net_event list"

text \<open>The field initialiser \<open>online = navigator.onLine\<close>.\<close>

definition new_monitor :: "bool \<Rightarrow> network_monitor" where
  "new_monitor navigator_onLine = \<lparr>online = navigator_onLine, nm_emitted = []\<rparr>"

definition setOnline :: "bool \<Rightarrow> network_monitor \<Rightarrow> network_monitor" where
  "setOnline v s =
     (if online s \<noteq> v
      then s\<lparr>online := v, nm_emitted := nm_emitted s @ [if v then EvOnline else EvOffline]\<rparr>
      else s)"

definition isOnline :: "network_monitor \<Rightarrow> bool" where
  "isOnline s = online s"

text \<open>
  What reaches the monitor: the window's \<open>online\<close> and \<open>offline\<close> events (the
  browser fires them when \<open>navigator.onLine\<close> changes) and the result of one run of
  the 30-second ping (\<open>response.ok\<close>, or \<open>false\<close> when the fetch throws).
\<close>

datatype signal = WindowOnline | WindowOffline | PingResult bool

fun on_signal :: "signal \<Rightarrow> network_monitor \<Rightarrow> network_monitor" where
  "on_signal WindowOnline s = setOnline True s"
| "on_signal WindowOffline s = setOnline False s"
| "on_signal (PingResult actuallyOnline) s =
     (if actuallyOnline \<noteq> online s then setOnline actuallyOnline s else s)"

definition run_monitor :: "bool \<Rightarrow> signal list \<Rightarrow> network_monitor" where
  "run_monitor navigator_onLine sigs = fold on_signal sigs (new_monitor navigator_onLine)"

text \<open>
  The two inputs the derivation speaks of, read off the same history: what the host
  advertises (\<open>navigator.onLine\<close>: its initial value, then the last window event) and
  whether the most recent ping succeeded.
\<close>

fun host_advertised :: "bool \<Rightarrow> signal list \<Rightarrow> bool" where
  "host_advertised b [] = b"
| "host_advertised b (WindowOnline # sigs) = host_advertised True sigs"
| "host_advertised b (WindowOffline # sigs) = host_advertised False sigs"
| "host_advertised b (PingResult _ # sigs) = host_advertised b sigs"

fun last_probe :: "bool option \<Rightarrow> signal list \<Rightarrow> bool option" where
  "last_probe p [] = p"
| "last_probe p (PingResult ok # sigs) = last_probe (Some ok) sigs"
| "last_probe p (_ # sigs) = last_probe p sigs"

fun signal_value :: "signal \<Rightarrow> bool" where
  "signal_value WindowOnline = True"
| "signal_value WindowOffline = False"
| "signal_value (PingResult ok) = ok"


section \<open>Vector clocks and reconciliation (reconciliation tests, MockReconciliationService)\<close>

text \<open>
  A vector clock is a plain object \<open>Record<string, number>\<close>: its own properties, in
  an association list. Reading \<open>clock[key]\<close> for a key the object does not own goes to
  \<open>Object.prototype\<close>: for the names below it yields the inherited member (a function,
  or the prototype itself for \<open>__proto__\<close>), which is truthy, so \<open>clock[key] || 0\<close> is
  that member and not 0; for any other name it yields \<open>undefined\<close> and the result is 0.
\<close>

type_synonym VectorClock = "(string \<times> int) list"

definition object_prototype_members :: "string list" where
  "object_prototype_members =
     [''constructor'', ''__defineGetter__'', ''__defineSetter__'', ''hasOwnProperty'',
      ''__lookupGetter__'', ''__lookupSetter__'', ''isPrototypeOf'',
      ''propertyIsEnumerable'', ''toString'', ''valueOf'', ''__proto__'',
      ''toLocaleString'']"

datatype clock_value = Counter int | Inherited

text \<open>\<open>clock[key] || 0\<close>.\<close>

definition clock_at :: "VectorClock \<Rightarrow> string \<Rightarrow> clock_value" where
  "clock_at clock key =
     (case map_of clock key of
        Some v \<Rightarrow> Counter (num_or v 0)
      | None \<Rightarrow> if key \<in> set object_prototype_members then Inherited else Counter 0)"

text \<open>
  \<open>v1 > v2\<close>: an inherited member converts to \<open>NaN\<close>, and every comparison with
  \<open>NaN\<close> is false.
\<close>

fun js_greater :: "clock_value \<Rightarrow> clock_value \<Rightarrow> bool" where
  "js_greater (Counter a) (Counter b) = (a > b)"
| "js_greater _ _ = False"

text \<open>\<open>Set.add\<close> and \<open>new Set(array)\<close>: insertion order, no duplicates.\<close>

definition set_add :: "'a \<Rightarrow> 'a list \<Rightarrow> 'a list" where
  "set_add x xs = (if x \<in> set xs then xs else xs @ [x])"

definition new_Set :: "'a list \<Rightarrow> 'a list" where
  "new_Set xs = fold set_add xs []"

definition allKeys :: "VectorClock \<Rightarrow> VectorClock \<Rightarrow> string list" where
  "allKeys clock1 clock2 = new_Set (map fst clock1 @ map fst clock2)"

text \<open>The body of the \<open>for\<close> loop, on the pair of flags.\<close>

definition concurrent_step :: "VectorClock \<Rightarrow> VectorClock \<Rightarrow> string \<Rightarrow> bool \<times> bool \<Rightarrow> bool \<times> bool" where
  "concurrent_step clock1 clock2 key flags =
     (let v1 = clock_at clock1 key; v2 = clock_at clock2 key;
          clock1Greater = (if js_greater v1 v2 then True else fst flags);
          clock2Greater = (if js_greater v2 v1 then True else snd flags)
      in (clock1Greater, clock2Greater))"

definition areConcurrent :: "VectorClock \<Rightarrow> VectorClock \<Rightarrow> bool" where
  "areConcurrent clock1 clock2 =
     (let flags = fold (concurrent_step clock1 clock2) (allKeys clock1 clock2) (False, False)
      in fst flags \<and> snd flags)"

datatype operation_type = OP_CREATE | OP_UPDATE | OP_DELETE

record operation =
  operationId :: string
  op_clientId :: string
  op_tenantId :: string
  op_entityType :: string
  op_entityId :: string
  operationType :: operation_type
  op_payload :: "string \<rightharpoonup> jsval"
  op_timestamp :: int
  vectorClock :: VectorClock

datatype ResolutionStrategy = LAST_WRITE_WINS | CUSTOM_MERGE | MANUAL | FIELD_LEVEL_MERGE

record ConflictResolution =
  res_strategy :: ResolutionStrategy
  resolvedAt :: int
  res_result :: "string \<rightharpoonup> jsval"

record Conflict =
  conflictId :: string
  c_entityType :: string
  c_entityId :: string
  c_operations :: "operation list"
  detectedAt :: int
  resolution :: "ConflictResolution option"

record ReconciliationRequest =
  requestId :: string
  rq_clientId :: string
  rq_tenantId :: string
  rq_operations :: "operation list"
  requestedAt :: int

record ReconciliationResponse =
  rs_requestId :: string
  rs_conflicts :: "Conflict list"
  rs_resolvedOperations :: "operation list"
  currentVersion :: string
  completedAt :: int

text \<open>
  The service's \<open>operations\<close> map, read as \<open>this.operations.get(key) || []\<close>: the
  operations stored under a key, none for a key never written.
\<close>

type_synonym reconciliation_service = "string \<Rightarrow> operation list"

definition operations_key :: "string \<Rightarrow> string \<Rightarrow> string \<Rightarrow> string" where
  "operations_key tenant entityType entityId = tenant @ '':'' @ entityType @ '':'' @ entityId"

definition submitOperation :: "operation \<Rightarrow> reconciliation_service \<Rightarrow> reconciliation_service" where
  "submitOperation op svc =
     (let key = operations_key (op_tenantId op) (op_entityType op) (op_entityId op)
      in svc(key := svc key @ [op]))"

definition detectConflicts :: "operation \<Rightarrow> operation list \<Rightarrow> operation list" where
  "detectConflicts op existingOps =
     filter (\<lambda>existing. areConcurrent (vectorClock op) (vectorClock existing)) existingOps"

text \<open>
  \<open>mergeFields\<close>: the operations sorted by timestamp (the sort is stable), their
  payloads assigned onto one object in that order.
\<close>

definition mergeFields :: "operation list \<Rightarrow> (string \<rightharpoonup> jsval)" where
  "mergeFields ops =
     fold (\<lambda>op merged. merged ++ op_payload op) (sort_key op_timestamp ops) Map.empty"

text \<open>
  \<open>resolveConflict\<close>. \<open>reduce\<close> without an initial value starts from the first
  operation; on an empty array it throws, and so does \<open>operations[0].payload\<close>: that is
  \<open>None\<close>.
\<close>

definition resolveConflict :: "int \<Rightarrow> Conflict \<Rightarrow> ResolutionStrategy \<Rightarrow> ConflictResolution option" where
  "resolveConflict now conflict strat =
     (case strat of
        LAST_WRITE_WINS \<Rightarrow>
          (case c_operations conflict of
             [] \<Rightarrow> None
           | first # rest \<Rightarrow>
               let latestOp =
                     fold (\<lambda>op latest. if op_timestamp op > op_timestamp latest then op else latest)
                       rest first
               in Some \<lparr>res_strategy = strat, resolvedAt = now, res_result = op_payload latestOp\<rparr>)
      | FIELD_LEVEL_MERGE \<Rightarrow>
          Some \<lparr>res_strategy = strat, resolvedAt = now,
                res_result = mergeFields (c_operations conflict)\<rparr>
      | _ \<Rightarrow>
          (case c_operations conflict of
             [] \<Rightarrow> None
           | first # rest \<Rightarrow>
               Some \<lparr>res_strategy = strat, resolvedAt = now, res_result = op_payload first\<rparr>))"

definition getWinningOperation :: "Conflict \<Rightarrow> operation option" where
  "getWinningOperation conflict =
     (case c_operations conflict of
        [] \<Rightarrow> None
      | first # rest \<Rightarrow>
          (case resolution conflict of
             None \<Rightarrow> Some first
           | Some r \<Rightarrow> Some (first\<lparr>op_payload := res_result r\<rparr>)))"

text \<open>Decimal digits of a number, for \<open>`conflict-${Date.now()}`\<close>.\<close>

function decimal :: "nat \<Rightarrow> string" where
  "decimal n =
     (if n < 10 then [''0123456789'' ! n]
      else decimal (n div 10) @ [''0123456789'' ! (n mod 10)])"
  by pat_completeness auto
termination
  by (relation "measure id") auto

declare decimal.simps [simp del]

text \<open>
  The body of the loop of \<open>reconcile\<close>, on the conflicts and resolved operations
  collected so far and the service's map. The key is built from the request's
  tenant. A conflict is pushed right after \<open>resolveConflict\<close> was called on it, so the
  conflicts of the response are the calls of the resolver. \<open>None\<close> is a throw.
  The clock is read several times during a call; one value \<open>now\<close> serves them all.
\<close>

definition reconcile_step ::
  "ReconciliationRequest \<Rightarrow> int \<Rightarrow> operation
     \<Rightarrow> Conflict list \<times> operation list \<times> reconciliation_service
     \<Rightarrow> (Conflict list \<times> operation list \<times> reconciliation_service) option" where
  "reconcile_step request now op acc =
     (case acc of (conflicts, resolvedOperations, svc) \<Rightarrow>
        let key = operations_key (rq_tenantId request) (op_entityType op) (op_entityId op);
            existingOps = svc key;
            conflictingOps = detectConflicts op existingOps
        in if length conflictingOps > 0 then
             let conflict = \<lparr>conflictId = ''conflict-'' @ decimal (nat now),
                             c_entityType = op_entityType op, c_entityId = op_entityId op,
                             c_operations = op # conflictingOps, detectedAt = now,
                             resolution = None\<rparr>
             in (case resolveConflict now conflict LAST_WRITE_WINS of
                   None \<Rightarrow> None
                 | Some r \<Rightarrow>
                     let resolved = conflict\<lparr>resolution := Some r\<rparr>
                     in (case getWinningOperation resolved of
                           None \<Rightarrow> None
                         | Some winner \<Rightarrow>
                             Some (conflicts @ [resolved], resolvedOperations @ [winner],
                                   submitOperation op svc)))
           else Some (conflicts, resolvedOperations @ [op], submitOperation op svc))"

fun reconcile_loop ::
  "ReconciliationRequest \<Rightarrow> int \<Rightarrow> operation list
     \<Rightarrow> Conflict list \<times> operation list \<times> reconciliation_service
     \<Rightarrow> (Conflict list \<times> operation list \<times> reconciliation_service) option" where
  "reconcile_loop request now [] acc = Some acc"
| "reconcile_loop request now (op # ops) acc =
     (case reconcile_step request now op acc of
        None \<Rightarrow> None
      | Some acc' \<Rightarrow> reconcile_loop request now ops acc')"

definition reconcile ::
  "ReconciliationRequest \<Rightarrow> int \<Rightarrow> reconciliation_service
     \<Rightarrow> (ReconciliationResponse \<times> reconciliation_service) outcome" where
  "reconcile request now svc =
     (case reconcile_loop request now (rq_operations request) ([], [], svc) of
        None \<Rightarrow> Throws ''TypeError''
      | Some (conflicts, resolvedOperations, svc') \<Rightarrow>
          Done (\<lparr>rs_requestId = requestId request, rs_conflicts = conflicts,
                 rs_resolvedOperations = resolvedOperations,
                 currentVersion = ''v-'' @ decimal (nat now), completedAt = now\<rparr>,
                svc'))"

text \<open>
  The comparison of the data model, in its own words: \<open>A \<le> B\<close> iff for every key
  \<open>A[k] \<le> B[k]\<close> (missing = 0); concurrent iff neither \<open>A \<le> B\<close> nor \<open>B \<le> A\<close>.
\<close>

definition vc_at :: "VectorClock \<Rightarrow> string \<Rightarrow> int" where
  "vc_at A k = (case map_of A k of None \<Rightarrow> 0 | Some v \<Rightarrow> v)"

definition vc_leq :: "VectorClock \<Rightarrow> VectorClock \<Rightarrow> bool" where
  "vc_leq A B = (\<forall>k. vc_at A k \<le> vc_at B k)"

definition vc_concurrent :: "VectorClock \<Rightarrow> VectorClock \<Rightarrow> bool" where
  "vc_concurrent A B = (\<not> vc_leq A B \<and> \<not> vc_leq B A)"


section \<open>Realtime channel (pf2-realtime-eventing-infrastructure, WebSocketService.ts)\<close>

datatype InteractionClass = CLASS_A | CLASS_B | CLASS_C | CLASS_D

text \<open>
  The payload of the client's \<open>message\<close> event, with the field types of the API
  documentation; an absent field is \<open>None\<close>. The last two fields are ones a client may
  add although the service never reads them.
\<close>

record client_data =
  d_type :: "string option"
  d_payload :: jsval
  d_tenantId :: "string option"
  d_interactionClass :: "InteractionClass option"
  d_recipientId :: "string option"
  d_roomId :: "string option"
  d_metadata :: jsval
  d_messageId :: "string option"
  d_senderId :: "string option"

text \<open>\<open>socket.id\<close> and the part of \<open>socket.data\<close> set by the authentication middleware.\<close>

record socket =
  socket_id :: string
  sock_tenantId :: string
  sock_userId :: string

record WebSocketMessage =
  messageId :: string
  msg_type :: string
  interactionClass :: InteractionClass
  tenantId :: string
  senderId :: string
  recipientId :: "string option"
  roomId :: "string option"
  payload :: jsval
  timestamp :: int
  metadata :: jsval

datatype rt_error =
    Error string
  | TenantIsolationViolation string
  | RateLimitExceeded string

fun error_message :: "rt_error \<Rightarrow> string" where
  "error_message (Error m) = m"
| "error_message (TenantIsolationViolation m) = m"
| "error_message (RateLimitExceeded m) = m"

record PresenceInfo =
  p_userId :: string
  p_tenantId :: string
  p_status :: string
  p_lastActive :: int
  p_metadata :: jsval

record ConnectionMetadata =
  connectionId :: string
  conn_tenantId :: string
  conn_userId :: string

datatype server_event =
    EvMessageAck string
  | EvError string
  | EvRoomJoined string
  | EvRoomLeft string
  | EvMessage WebSocketMessage

datatype log_entry = LogError string rt_error | LogInfo string | LogDebug string

text \<open>
  The state the handlers touch: the service's connection table, the Socket.IO rooms
  (each a \<open>Set\<close> of socket ids: a list in insertion order, no duplicates),
  the Redis keys (rate-limit counters, presence entries, room-member sets, offline
  message queues), what was published on Redis channels, the log, and the events
  emitted to sockets (by socket id).
\<close>

record realtime =
  connections :: "(string \<times> ConnectionMetadata) list"
  live_sockets :: "string list"
  socket_rooms :: "string \<Rightarrow> string list"
  rate_limit :: "string \<Rightarrow> nat"
  presence :: "string \<rightharpoonup> PresenceInfo"
  room_members :: "string \<Rightarrow> string set"
  message_queue :: "string \<Rightarrow> WebSocketMessage list"
  published :: "(string \<times> WebSocketMessage) list"
  logger :: "log_entry list"
  emitted :: "(string \<times> server_event) list"

definition validateMessage :: "socket \<Rightarrow> client_data \<Rightarrow> string \<Rightarrow> int \<Rightarrow> rt_error + WebSocketMessage" where
  "validateMessage sock data uuid now =
     (if \<not> str_truthy (d_type data) \<or> \<not> truthy (d_payload data)
      then Inl (Error ''Message must include type and payload'')
      else if str_truthy (d_tenantId data) \<and> d_tenantId data \<noteq> Some (sock_tenantId sock)
      then Inl (TenantIsolationViolation ''Cannot send message for different tenant'')
      else Inr \<lparr>messageId = uuid,
                msg_type = (case d_type data of Some t \<Rightarrow> t | None \<Rightarrow> []),
                interactionClass = (case d_interactionClass data of Some c \<Rightarrow> c | None \<Rightarrow> CLASS_C),
                tenantId = sock_tenantId sock,
                senderId = sock_userId sock,
                recipientId = d_recipientId data,
                roomId = d_roomId data,
                payload = d_payload data,
                timestamp = now,
                metadata = d_metadata data\<rparr>)"

text \<open>
  \<open>checkRateLimit\<close>: \<open>INCR\<close> on the connection's counter, then the comparison with
  \<open>config.messageRateLimit\<close>. The increment stays when the limit is exceeded. (The
  one-minute expiry of the counter is Redis's doing, between calls.)
\<close>

definition checkRateLimit :: "nat \<Rightarrow> socket \<Rightarrow> realtime \<Rightarrow> realtime \<times> rt_error option" where
  "checkRateLimit messageRateLimit sock st =
     (let key = ''rate_limit:'' @ socket_id sock;
          count = rate_limit st key + 1;
          st' = st\<lparr>rate_limit := (rate_limit st)(key := count)\<rparr>
      in if count > messageRateLimit
         then (st', Some (RateLimitExceeded ''Message rate limit exceeded''))
         else (st', None))"

text \<open>\<open>getUserTenant\<close> is a placeholder in the source: it returns \<open>'tenant-id'\<close>.\<close>

definition getUserTenant :: "string \<Rightarrow> string" where
  "getUserTenant userId = ''tenant-id''"

definition publish :: "string \<Rightarrow> WebSocketMessage \<Rightarrow> realtime \<Rightarrow> realtime" where
  "publish channel message st = st\<lparr>published := published st @ [(channel, message)]\<rparr>"

definition opt_str :: "string option \<Rightarrow> string" where
  "opt_str x = (case x of Some s \<Rightarrow> s | None \<Rightarrow> ''undefined'')"

definition sendDirectMessage :: "WebSocketMessage \<Rightarrow> realtime \<Rightarrow> rt_error + realtime" where
  "sendDirectMessage message st =
     (if Some (tenantId message) \<noteq> recipientId message
         \<and> getUserTenant (opt_str (recipientId message)) \<noteq> tenantId message
      then Inl (TenantIsolationViolation ''Cross-tenant messaging not allowed'')
      else Inr (publish (''user:'' @ tenantId message @ '':'' @ opt_str (recipientId message))
                  message st))"

definition broadcastToRoom :: "WebSocketMessage \<Rightarrow> realtime \<Rightarrow> realtime" where
  "broadcastToRoom message st =
     publish (''room:'' @ tenantId message @ '':'' @ opt_str (roomId message)) message st"

definition report_error :: "socket \<Rightarrow> rt_error \<Rightarrow> realtime \<Rightarrow> realtime" where
  "report_error sock e st =
     st\<lparr>logger := logger st @ [LogError ''Error handling message'' e],
        emitted := emitted st @ [(socket_id sock, EvError (error_message e))]\<rparr>"

text \<open>
  \<open>handleMessage\<close>: rate limit, validation, routing, acknowledgement; anything thrown
  on the way is logged and reported to the sender. \<open>uuid\<close> is what \<open>uuidv4()\<close>
  returns to this call and \<open>now\<close> the server's clock.
\<close>

definition handleMessage :: "nat \<Rightarrow> socket \<Rightarrow> client_data \<Rightarrow> string \<Rightarrow> int \<Rightarrow> realtime \<Rightarrow> realtime" where
  "handleMessage messageRateLimit sock data uuid now st =
     (case checkRateLimit messageRateLimit sock st of
        (st1, Some e) \<Rightarrow> report_error sock e st1
      | (st1, None) \<Rightarrow>
          (case validateMessage sock data uuid now of
             Inl e \<Rightarrow> report_error sock e st1
           | Inr message \<Rightarrow>
               let routed =
                     (if str_truthy (recipientId message) then sendDirectMessage message st1
                      else if str_truthy (roomId message) then Inr (broadcastToRoom message st1)
                      else Inl (Error ''Message must specify recipientId or roomId''))
               in (case routed of
                     Inl e \<Rightarrow> report_error sock e st1
                   | Inr st2 \<Rightarrow>
                       st2\<lparr>emitted := emitted st2
                                        @ [(socket_id sock, EvMessageAck (messageId message))]\<rparr>)))"

text \<open>
  \<open>handleJoinRoom\<close> and \<open>handleLeaveRoom\<close>: \<open>validateRoomAccess\<close> has an empty body,
  so nothing is thrown.
\<close>

definition handleJoinRoom :: "socket \<Rightarrow> string \<Rightarrow> realtime \<Rightarrow> realtime" where
  "handleJoinRoom sock room st =
     (let rkey = sock_tenantId sock @ '':'' @ room;
          mkey = ''room_members:'' @ sock_tenantId sock @ '':'' @ room
      in st\<lparr>socket_rooms := (socket_rooms st)(rkey := set_add (socket_id sock) (socket_rooms st rkey)),
            room_members := (room_members st)(mkey := insert (sock_userId sock) (room_members st mkey)),
            emitted := emitted st @ [(socket_id sock, EvRoomJoined room)],
            logger := logger st @ [LogInfo ''User joined room'']\<rparr>)"

definition handleLeaveRoom :: "socket \<Rightarrow> string \<Rightarrow> realtime \<Rightarrow> realtime" where
  "handleLeaveRoom sock room st =
     (let rkey = sock_tenantId sock @ '':'' @ room;
          mkey = ''room_members:'' @ sock_tenantId sock @ '':'' @ room
      in st\<lparr>socket_rooms := (socket_rooms st)(rkey := removeAll (socket_id sock) (socket_rooms st rkey)),
            room_members := (room_members st)(mkey := room_members st mkey - {sock_userId sock}),
            emitted := emitted st @ [(socket_id sock, EvRoomLeft room)],
            logger := logger st @ [LogInfo ''User left room'']\<rparr>)"

definition updatePresence :: "string \<Rightarrow> string \<Rightarrow> string \<Rightarrow> jsval \<Rightarrow> int \<Rightarrow> realtime \<Rightarrow> realtime" where
  "updatePresence tenant user status md now st =
     st\<lparr>presence := (presence st)(''presence:'' @ tenant @ '':'' @ user \<mapsto>
          \<lparr>p_userId = user, p_tenantId = tenant, p_status = status,
           p_lastActive = now, p_metadata = md\<rparr>)\<rparr>"

definition handlePresenceUpdate :: "socket \<Rightarrow> string \<Rightarrow> jsval \<Rightarrow> int \<Rightarrow> realtime \<Rightarrow> realtime" where
  "handlePresenceUpdate sock status md now st =
     (let st1 = updatePresence (sock_tenantId sock) (sock_userId sock) status md now st
      in st1\<lparr>logger := logger st1 @ [LogDebug ''Presence updated'']\<rparr>)"

text \<open>
  \<open>deliverDirectMessage\<close>, run by each server instance on a message published on a
  \<open>user:\<close> channel: emit to the open sockets of the recipient's connections in the
  message's tenant; with no such connection, push on the offline queue.
\<close>

definition recipient_connections :: "WebSocketMessage \<Rightarrow> realtime \<Rightarrow> ConnectionMetadata list" where
  "recipient_connections message st =
     filter (\<lambda>conn. Some (conn_userId conn) = recipientId message
                    \<and> conn_tenantId conn = tenantId message)
            (map snd (connections st))"

definition queueMessageForLater :: "WebSocketMessage \<Rightarrow> realtime \<Rightarrow> realtime" where
  "queueMessageForLater message st =
     (let queueKey = ''message_queue:'' @ tenantId message @ '':'' @ opt_str (recipientId message)
      in st\<lparr>message_queue := (message_queue st)(queueKey := message # message_queue st queueKey),
            logger := logger st @ [LogInfo ''Message queued for offline user'']\<rparr>)"

definition deliverDirectMessage :: "WebSocketMessage \<Rightarrow> realtime \<Rightarrow> realtime" where
  "deliverDirectMessage message st =
     (let conns = recipient_connections message st;
          st1 = st\<lparr>emitted := emitted st
                      @ map (\<lambda>conn. (connectionId conn, EvMessage message))
                          (filter (\<lambda>conn. connectionId conn \<in> set (live_sockets st)) conns)\<rparr>
      in if length conns = 0 then queueMessageForLater message st1 else st1)"


text \<open>
  \<open>deliverRoomMessage\<close>, run on a message published on a \<open>room:\<close> channel:
  \<open>io.to(roomKey).emit\<close> reaches the sockets that are in the Socket.IO room
  \<open>tenantId:roomId\<close>.
\<close>

definition deliverRoomMessage :: "WebSocketMessage \<Rightarrow> realtime \<Rightarrow> realtime" where
  "deliverRoomMessage message st =
     (let roomKey = tenantId message @ '':'' @ opt_str (roomId message)
      in st\<lparr>emitted := emitted st
                 @ map (\<lambda>sid. (sid, EvMessage message)) (socket_rooms st roomKey)\<rparr>)"

text \<open>
  What the service reacts to: the socket events registered in \<open>setupEventHandlers\<close>
  (with the socket they arrive on; for \<open>message\<close> also what \<open>uuidv4()\<close> and the clock
  give that call) and the Redis \<open>pmessage\<close> of \<open>setupRedisSubscriptions\<close>, which
  dispatches on the channel's prefix.
\<close>

datatype rt_event =
    OnMessage socket client_data string int
  | OnJoinRoom socket string
  | OnLeaveRoom socket string
  | OnPresenceUpdate socket string jsval int
  | OnRedis string WebSocketMessage

fun rt_step :: "nat \<Rightarrow> rt_event \<Rightarrow> realtime \<Rightarrow> realtime" where
  "rt_step messageRateLimit (OnMessage sock data uuid now) st =
     handleMessage messageRateLimit sock data uuid now st"
| "rt_step messageRateLimit (OnJoinRoom sock room) st = handleJoinRoom sock room st"
| "rt_step messageRateLimit (OnLeaveRoom sock room) st = handleLeaveRoom sock room st"
| "rt_step messageRateLimit (OnPresenceUpdate sock status md now) st =
     handlePresenceUpdate sock status md now st"
| "rt_step messageRateLimit (OnRedis channel message) st =
     (if take 5 channel = ''user:'' then deliverDirectMessage message st
      else if take 5 channel = ''room:'' then deliverRoomMessage message st
      else st)"

text \<open>The tenant an event is executed for.\<close>

fun event_tenant :: "rt_event \<Rightarrow> string" where
  "event_tenant (OnMessage sock data uuid now) = sock_tenantId sock"
| "event_tenant (OnJoinRoom sock room) = sock_tenantId sock"
| "event_tenant (OnLeaveRoom sock room) = sock_tenantId sock"
| "event_tenant (OnPresenceUpdate sock status md now) = sock_tenantId sock"
| "event_tenant (OnRedis channel message) = tenantId message"


section \<open>Observations and scenarios\<close>

text \<open>The version of the record stored under an id.\<close>

definition version_of :: "offline_db \<Rightarrow> string \<Rightarrow> int option" where
  "version_of db i = map_option (\<lambda>d. version (doc_meta d)) (repo_get db i)"

definition prev_version :: "offline_db \<Rightarrow> string \<Rightarrow> int" where
  "prev_version db i = (case version_of db i of None \<Rightarrow> 0 | Some v \<Rightarrow> v)"

text \<open>The \<open>_meta\<close> block \<open>put\<close> stamps at time \<open>now\<close> over an existing record, if any.\<close>

definition stamp :: "int \<Rightarrow> doc option \<Rightarrow> meta" where
  "stamp now existing =
     \<lparr>createdAt = (case existing of None \<Rightarrow> now | Some e \<Rightarrow> num_or (createdAt (doc_meta e)) now),
      updatedAt = now,
      version = (case existing of None \<Rightarrow> 0 | Some e \<Rightarrow> version (doc_meta e)) + 1,
      deleted = False\<rparr>"

definition prop_of :: "doc \<Rightarrow> string \<Rightarrow> jsval" where
  "prop_of d key = (case doc_props d key of None \<Rightarrow> JUndefined | Some v \<Rightarrow> v)"

text \<open>A \<open>conflict-detected\<close> handler that never calls \<open>resolve\<close>.\<close>

definition no_ui :: "doc \<Rightarrow> doc \<Rightarrow> doc option" where
  "no_ui local remote = None"

text \<open>Items of two tenants, two of them with the same id.\<close>

definition item_d1_t1 :: item where
  "item_d1_t1 = \<lparr>item_id = ''d1'',
                  item_props = [''tenantId'' \<mapsto> JStr ''t1'', ''title'' \<mapsto> JStr ''A''],
                  item_meta = None\<rparr>"

definition item_d1_t2 :: item where
  "item_d1_t2 = \<lparr>item_id = ''d1'',
                  item_props = [''tenantId'' \<mapsto> JStr ''t2'', ''title'' \<mapsto> JStr ''B''],
                  item_meta = None\<rparr>"

definition item_d2_t2 :: item where
  "item_d2_t2 = \<lparr>item_id = ''d2'',
                  item_props = [''tenantId'' \<mapsto> JStr ''t2'', ''title'' \<mapsto> JStr ''C''],
                  item_meta = None\<rparr>"

text \<open>The document of the test \<open>should queue mutations when offline\<close>.\<close>

definition offline_doc :: item where
  "offline_doc = \<lparr>item_id = ''2'',
                   item_props = [''title'' \<mapsto> JStr ''Offline Doc'',
                                 ''content'' \<mapsto> JStr ''Created offline''],
                   item_meta = None\<rparr>"

text \<open>A store holding one record at version 3.\<close>

definition db_v3 :: offline_db where
  "db_v3 = \<lparr>documents =
              [(''d1'', \<lparr>st_props = [''title'' \<mapsto> JStr ''A''],
                        st_meta = \<lparr>createdAt = 100, updatedAt = 300, version = 3,
                                   deleted = False\<rparr>\<rparr>)],
            pendingMutations = []\<rparr>"

text \<open>
  A local record at version 2, newer than an incoming change at version 4, and the
  store after the first and the second application of that change.
\<close>

definition db_twice :: offline_db where
  "db_twice = \<lparr>documents =
                 [(''d1'', \<lparr>st_props = [''title'' \<mapsto> JStr ''L''],
                           st_meta = \<lparr>createdAt = 500, updatedAt = 3000, version = 2,
                                      deleted = False\<rparr>\<rparr>)],
               pendingMutations = []\<rparr>"

definition change_twice :: item where
  "change_twice = \<lparr>item_id = ''d1'', item_props = [''title'' \<mapsto> JStr ''R''],
                    item_meta = Some \<lparr>createdAt = 400, updatedAt = 2000, version = 4,
                                      deleted = False\<rparr>\<rparr>"

definition db_once_applied :: offline_db where
  "db_once_applied =
     \<lparr>documents =
        [(''d1'', \<lparr>st_props = [''title'' \<mapsto> JStr ''L''],
                  st_meta = \<lparr>createdAt = 500, updatedAt = 5000, version = 3,
                             deleted = False\<rparr>\<rparr>)],
      pendingMutations = []\<rparr>"

definition db_twice_applied :: offline_db where
  "db_twice_applied =
     \<lparr>documents =
        [(''d1'', \<lparr>st_props = [''title'' \<mapsto> JStr ''R''],
                  st_meta = \<lparr>createdAt = 500, updatedAt = 6000, version = 4,
                             deleted = False\<rparr>\<rparr>)],
      pendingMutations = []\<rparr>"

text \<open>
  Scenario S2: local \<open>{id:"d2", version:3, updatedAt:1000, title:"L"}\<close> with an
  unpushed update; incoming \<open>{id:"d2", version:4, updatedAt:2000, title:"R"}\<close>.
\<close>

definition mutation_s2 :: mutation where
  "mutation_s2 = \<lparr>mut_id = ''m1'', mut_type = Update, mut_collection = ''documents'',
                   mut_data = JObj ''d2'', mut_timestamp = 1000, retryCount = 0,
                   mut_error = None\<rparr>"

definition db_s2 :: offline_db where
  "db_s2 = \<lparr>documents =
              [(''d2'', \<lparr>st_props = [''title'' \<mapsto> JStr ''L''],
                        st_meta = \<lparr>createdAt = 900, updatedAt = 1000, version = 3,
                                   deleted = False\<rparr>\<rparr>)],
            pendingMutations = [(''m1'', mutation_s2)]\<rparr>"

definition change_s2 :: item where
  "change_s2 = \<lparr>item_id = ''d2'', item_props = [''title'' \<mapsto> JStr ''R''],
                 item_meta = Some \<lparr>createdAt = 900, updatedAt = 2000, version = 4,
                                   deleted = False\<rparr>\<rparr>"


text \<open>An authenticated connection of tenant \<open>t1\<close> and an idle service.\<close>

definition sock_u1 :: socket where
  "sock_u1 = \<lparr>socket_id = ''s1'', sock_tenantId = ''t1'', sock_userId = ''u1''\<rparr>"

definition idle :: realtime where
  "idle = \<lparr>connections = [], live_sockets = [], socket_rooms = (\<lambda>k. []),
           rate_limit = (\<lambda>k. 0), presence = Map.empty, room_members = (\<lambda>k. {}),
           message_queue = (\<lambda>k. []), published = [], logger = [], emitted = []\<rparr>"

definition room_data :: client_data where
  "room_data = \<lparr>d_type = Some ''chat.message'', d_payload = JObj ''text'',
                 d_tenantId = None, d_interactionClass = None, d_recipientId = None,
                 d_roomId = Some ''r1'', d_metadata = JUndefined, d_messageId = None,
                 d_senderId = None\<rparr>"

text \<open>A Class D message for a room.\<close>

definition class_d_data :: client_data where
  "class_d_data = room_data\<lparr>d_type := Some ''payment.process'',
                             d_interactionClass := Some CLASS_D\<rparr>"

text \<open>The same room message with an empty \<open>tenantId\<close> field.\<close>

definition empty_tenant_data :: client_data where
  "empty_tenant_data = room_data\<lparr>d_tenantId := Some []\<rparr>"

text \<open>
  A refused message, seen from outside: \<open>handleMessage\<close> took the state from \<open>st\<close> to
  \<open>st'\<close> without publishing, queueing or touching presence and rooms, logged one
  error and emitted that error to the sender.
\<close>

definition refused :: "socket \<Rightarrow> realtime \<Rightarrow> realtime \<Rightarrow> bool" where
  "refused sock st st' =
     (published st' = published st \<and> message_queue st' = message_queue st
      \<and> presence st' = presence st \<and> room_members st' = room_members st
      \<and> socket_rooms st' = socket_rooms st
      \<and> (\<exists>e. logger st' = logger st @ [LogError ''Error handling message'' e]
             \<and> emitted st' = emitted st @ [(socket_id sock, EvError (error_message e))]))"

text \<open>The tenant a stored record says it belongs to (its \<open>tenantId\<close> property).\<close>

definition tenant_of :: "doc \<Rightarrow> jsval" where
  "tenant_of d = prop_of d ''tenantId''"

text \<open>One open connection of user \<open>u2\<close> in tenant \<open>t1\<close> and one in tenant \<open>t2\<close>.\<close>

definition two_tenants :: realtime where
  "two_tenants =
     idle\<lparr>connections :=
            [(''s2'', \<lparr>connectionId = ''s2'', conn_tenantId = ''t1'', conn_userId = ''u2''\<rparr>),
             (''s3'', \<lparr>connectionId = ''s3'', conn_tenantId = ''t2'', conn_userId = ''u2''\<rparr>)],
          live_sockets := [''s2'', ''s3'']\<rparr>"

definition direct_message :: WebSocketMessage where
  "direct_message = \<lparr>messageId = ''uuid-1'', msg_type = ''chat.message'',
                      interactionClass = CLASS_C, tenantId = ''t1'', senderId = ''u1'',
                      recipientId = Some ''u2'', roomId = None, payload = JObj ''text'',
                      timestamp = 1000, metadata = JUndefined\<rparr>"

text \<open>Clocks and operations of the reconciliation tests.\<close>

definition clock_client1 :: VectorClock where
  "clock_client1 = [(''client-001'', 1)]"

definition clock_client2 :: VectorClock where
  "clock_client2 = [(''client-002'', 1)]"

definition op_shipped :: operation where
  "op_shipped = \<lparr>operationId = ''op-001'', op_clientId = ''client-001'',
                  op_tenantId = ''tenant-001'', op_entityType = ''order'',
                  op_entityId = ''order-001'', operationType = OP_UPDATE,
                  op_payload = [''status'' \<mapsto> JStr ''shipped''], op_timestamp = 1000,
                  vectorClock = clock_client1\<rparr>"

definition op_cancelled :: operation where
  "op_cancelled = \<lparr>operationId = ''op-002'', op_clientId = ''client-002'',
                    op_tenantId = ''tenant-001'', op_entityType = ''order'',
                    op_entityId = ''order-001'', operationType = OP_UPDATE,
                    op_payload = [''status'' \<mapsto> JStr ''cancelled''], op_timestamp = 1100,
                    vectorClock = clock_client2\<rparr>"

text \<open>
  Two clocks with one key each, the first of them named like a member of
  \<open>Object.prototype\<close>; the two operations above carrying them; a service that holds
  one operation, and a request that brings one.
\<close>

definition clock_toString :: VectorClock where
  "clock_toString = [(''toString'', 1)]"

definition clock_b :: VectorClock where
  "clock_b = [(''b'', 1)]"

definition no_operations :: reconciliation_service where
  "no_operations key = []"

definition request_of :: "operation \<Rightarrow> ReconciliationRequest" where
  "request_of op = \<lparr>requestId = ''req-001'', rq_clientId = op_clientId op,
                     rq_tenantId = op_tenantId op, rq_operations = [op],
                     requestedAt = 2000\<rparr>"

text \<open>The keys of two clocks avoid the names \<open>Object.prototype\<close> defines.\<close>

definition plain_keys :: "VectorClock \<Rightarrow> VectorClock \<Rightarrow> bool" where
  "plain_keys clock1 clock2 =
     (set (map fst clock1 @ map fst clock2) \<inter> set object_prototype_members = {})"

text \<open>No record's version is lower in \<open>db'\<close> than in \<open>db\<close>.\<close>

definition never_decreases :: "offline_db \<Rightarrow> offline_db \<Rightarrow> bool" where
  "never_decreases db db' =
     (\<forall>j v. version_of db j = Some v \<longrightarrow> (\<exists>v'. version_of db' j = Some v' \<and> v \<le> v'))"



text \<open>
  Tenant identifiers and keys. The service builds every tenant-scoped key as
  \<open>prefix + tenantId + ':' + name\<close>; \<open>starts_with\<close> is \<open>String.prototype.startsWith\<close>.
\<close>

definition colon_free :: "string \<Rightarrow> bool" where
  "colon_free t = (CHR '':'' \<notin> set t)"

definition starts_with :: "string \<Rightarrow> string \<Rightarrow> bool" where
  "starts_with p s = (take (length p) s = p)"

text \<open>
  What the service holds for a tenant: its Socket.IO rooms, its room-member sets, its
  presence entries and its offline queues (each by the name that follows the tenant in
  the key), and its connections.
\<close>

definition tenant_view ::
  "string \<Rightarrow> realtime \<Rightarrow>
     (string \<Rightarrow> string list) \<times> (string \<Rightarrow> string set) \<times> (string \<rightharpoonup> PresenceInfo)
     \<times> (string \<Rightarrow> WebSocketMessage list) \<times> ConnectionMetadata list" where
  "tenant_view t st =
     (\<lambda>room. socket_rooms st (t @ '':'' @ room),
      \<lambda>room. room_members st (''room_members:'' @ t @ '':'' @ room),
      \<lambda>user. presence st (''presence:'' @ t @ '':'' @ user),
      \<lambda>user. message_queue st (''message_queue:'' @ t @ '':'' @ user),
      filter (\<lambda>conn. conn_tenantId conn = t) (map snd (connections st)))"

text \<open>
  Two states of the service that differ at most in what they hold for tenant \<open>t\<close>:
  the rooms, member sets, presence entries and queues under keys that do not start
  with \<open>t\<close>'s prefix are the same, so are the connections of the other tenants, and so
  is everything that is not kept per tenant.
\<close>

definition same_outside :: "string \<Rightarrow> realtime \<Rightarrow> realtime \<Rightarrow> bool" where
  "same_outside t st1 st2 =
     ((\<forall>k. \<not> starts_with (t @ '':'') k \<longrightarrow> socket_rooms st1 k = socket_rooms st2 k)
      \<and> (\<forall>k. \<not> starts_with (''room_members:'' @ t @ '':'') k \<longrightarrow>
              room_members st1 k = room_members st2 k)
      \<and> (\<forall>k. \<not> starts_with (''presence:'' @ t @ '':'') k \<longrightarrow> presence st1 k = presence st2 k)
      \<and> (\<forall>k. \<not> starts_with (''message_queue:'' @ t @ '':'') k \<longrightarrow>
              message_queue st1 k = message_queue st2 k)
      \<and> filter (\<lambda>conn. conn_tenantId conn \<noteq> t) (map snd (connections st1))
          = filter (\<lambda>conn. conn_tenantId conn \<noteq> t) (map snd (connections st2))
      \<and> live_sockets st1 = live_sockets st2 \<and> rate_limit st1 = rate_limit st2
      \<and> published st1 = published st2 \<and> logger st1 = logger st2
      \<and> emitted st1 = emitted st2)"

text \<open>
  \<open>owner\<close> gives the tenant the authentication middleware put into
  \<open>socket.data.tenantId\<close> for a socket id. A state is authentic when every socket in
  a Socket.IO room is in a room of its own tenant and every connection in the table
  carries the tenant of its socket; an event is authentic when the socket it arrives
  on carries the tenant of its id.
\<close>

definition authentic :: "(string \<Rightarrow> string) \<Rightarrow> realtime \<Rightarrow> bool" where
  "authentic owner st =
     ((\<forall>key sid. sid \<in> set (socket_rooms st key) \<longrightarrow> starts_with (owner sid @ '':'') key)
      \<and> (\<forall>conn \<in> set (map snd (connections st)). owner (connectionId conn) = conn_tenantId conn))"

fun event_authentic :: "(string \<Rightarrow> string) \<Rightarrow> rt_event \<Rightarrow> bool" where
  "event_authentic owner (OnMessage sock data uuid now) = (owner (socket_id sock) = sock_tenantId sock)"
| "event_authentic owner (OnJoinRoom sock room) = (owner (socket_id sock) = sock_tenantId sock)"
| "event_authentic owner (OnLeaveRoom sock room) = (owner (socket_id sock) = sock_tenantId sock)"
| "event_authentic owner (OnPresenceUpdate sock status md now) =
     (owner (socket_id sock) = sock_tenantId sock)"
| "event_authentic owner (OnRedis channel message) = True"

text \<open>What a step added to the emitted events and to the published messages.\<close>

definition new_emitted :: "realtime \<Rightarrow> realtime \<Rightarrow> (string \<times> server_event) list" where
  "new_emitted st st' = drop (length (emitted st)) (emitted st')"

definition new_published :: "realtime \<Rightarrow> realtime \<Rightarrow> (string \<times> WebSocketMessage) list" where
  "new_published st st' = drop (length (published st)) (published st')"

text \<open>
  A connection of tenant \<open>a:b\<close>, a connection of tenant \<open>a\<close>, a message of the
  latter for its room \<open>b:c\<close>, and that message as validated.
\<close>

definition sock_ab :: socket where
  "sock_ab = \<lparr>socket_id = ''s9'', sock_tenantId = ''a:b'', sock_userId = ''u9''\<rparr>"

definition sock_a :: socket where
  "sock_a = \<lparr>socket_id = ''s8'', sock_tenantId = ''a'', sock_userId = ''u8''\<rparr>"

definition room_bc_data :: client_data where
  "room_bc_data = room_data\<lparr>d_roomId := Some ''b:c''\<rparr>"

definition message_a :: WebSocketMessage where
  "message_a = \<lparr>messageId = ''uuid-2'', msg_type = ''chat.message'',
                 interactionClass = CLASS_C, tenantId = ''a'', senderId = ''u8'',
                 recipientId = None, roomId = Some ''b:c'', payload = JObj ''text'',
                 timestamp = 2000, metadata = JUndefined\<rparr>"

text \<open>The tenant of a socket id in the scenarios.\<close>

definition scenario_owner :: "string \<Rightarrow> string" where
  "scenario_owner sid = (if sid = ''s3'' then ''t2'' else ''t1'')"


section \<open>Facts about the repository and the sync engine\<close>

lemma num_or_zero: "num_or x 0 = x"
  by (simp add: num_or_def)

lemma repo_get_put:
  "repo_get (repo_put now it db) j =
     (if j = item_id it
      then Some \<lparr>doc_id = item_id it, doc_props = item_props it,
                 doc_meta = stamp now (repo_get db (item_id it))\<rparr>
      else repo_get db j)"
  by (cases "map_of (documents db) (item_id it)")
     (simp_all add: repo_get_def repo_put_def Let_def update_conv' doc_of_def stamp_def num_or_zero)

lemma pending_put: "pendingMutations (repo_put now it db) = pendingMutations db"
  by (simp add: repo_put_def Let_def)

lemma repo_get_delete:
  "repo_get (repo_delete now i db) j =
     (if j = i
      then map_option (\<lambda>d. d\<lparr>doc_meta := (doc_meta d)\<lparr>updatedAt := now, deleted := True\<rparr>\<rparr>)
             (repo_get db i)
      else repo_get db j)"
  by (cases "map_of (documents db) i")
     (auto simp add: repo_get_def repo_delete_def update_conv' doc_of_def)

lemma version_put:
  "version_of (repo_put now it db) j
     = (if j = item_id it then Some (prev_version db j + 1) else version_of db j)"
  by (cases "repo_get db (item_id it)")
     (simp_all add: version_of_def prev_version_def repo_get_put stamp_def)

lemma version_delete: "version_of (repo_delete now i db) j = version_of db j"
  by (cases "repo_get db i") (simp_all add: version_of_def repo_get_delete)

text \<open>The record \<open>put\<close> writes, and that it writes no other.\<close>

lemma repo_get_put_explicit:
  "repo_get (repo_put now it db) j =
     (if j = item_id it
      then Some \<lparr>doc_id = item_id it, doc_props = item_props it,
                 doc_meta = \<lparr>createdAt = (case repo_get db (item_id it) of None \<Rightarrow> now
                                            | Some e \<Rightarrow> num_or (createdAt (doc_meta e)) now),
                             updatedAt = now,
                             version = prev_version db (item_id it) + 1,
                             deleted = False\<rparr>\<rparr>
      else repo_get db j)"
  by (cases "repo_get db (item_id it)")
     (simp_all add: repo_get_put stamp_def prev_version_def version_of_def)

lemma put_over_local:
  assumes "repo_get db i = Some l" "item_id w = i"
  shows "repo_get (repo_put now w db) j
           = (if j = i
              then Some \<lparr>doc_id = i, doc_props = item_props w,
                         doc_meta = \<lparr>createdAt = num_or (createdAt (doc_meta l)) now,
                                     updatedAt = now,
                                     version = version (doc_meta l) + 1,
                                     deleted = False\<rparr>\<rparr>
              else repo_get db j)"
  using assms by (simp add: repo_get_put stamp_def)

lemma never_decreases_put: "never_decreases db (repo_put now it db)"
  by (auto simp: never_decreases_def version_put prev_version_def)

lemma never_decreases_delete: "never_decreases db (repo_delete now i db)"
  by (simp add: never_decreases_def version_delete)

lemma mergeText_same: "mergeText s s = s"
  by (simp add: mergeText_def)

lemma resolve_total:
  "strat \<noteq> Manual \<Longrightarrow> \<exists>x. resolve strat ui now l r = Some x"
  by (cases strat) (auto simp: resolve_def)

lemma resolve_id:
  assumes "strat \<noteq> Manual" "doc_id l = doc_id r" "resolve strat ui now l r = Some x"
  shows "doc_id x = doc_id r"
  using assms
  by (cases strat)
     (auto simp: resolve_def lastWriteWins_def firstWriteWins_def operationalTransform_def
                 mergeText_same split: if_splits)

lemma ot_props_same:
  "doc_props l = doc_props r \<Longrightarrow> doc_props (operationalTransform now l r) = doc_props r"
  by (rule ext)
     (simp add: operationalTransform_def mergeText_same split: option.splits jsval.splits)

lemma resolve_props:
  assumes "strat \<noteq> Manual" "doc_props l = doc_props r" "resolve strat ui now l r = Some x"
  shows "doc_props x = doc_props r"
  using assms
  by (cases strat)
     (auto simp: resolve_def lastWriteWins_def firstWriteWins_def ot_props_same split: if_splits)

lemma get_doc_id: "repo_get db i = Some l \<Longrightarrow> doc_id l = i"
  by (auto simp: repo_get_def doc_of_def)

lemma lww_id: "doc_id l = item_id c \<Longrightarrow> item_id (doc_item (lastWriteWins l (item_doc c cm))) = item_id c"
  by (simp add: lastWriteWins_def doc_item_def item_doc_def)

lemma fww_id: "doc_id l = item_id c \<Longrightarrow> item_id (doc_item (firstWriteWins l (item_doc c cm))) = item_id c"
  by (simp add: firstWriteWins_def doc_item_def item_doc_def)

lemma apply_absent:
  "repo_get db (item_id c) = None \<Longrightarrow>
   applyRemoteChange strat ui now c db =
     \<lparr>console = [], resolver_calls = [], put_calls = [c],
      result = Done (repo_put now c db)\<rparr>"
  by (simp add: applyRemoteChange_def)

lemma apply_no_meta:
  "repo_get db (item_id c) = Some l \<Longrightarrow> item_meta c = None \<Longrightarrow>
   applyRemoteChange strat ui now c db =
     \<lparr>console = [], resolver_calls = [], put_calls = [], result = Throws ''TypeError''\<rparr>"
  by (simp add: applyRemoteChange_def)

lemma apply_forward:
  "repo_get db (item_id c) = Some l \<Longrightarrow> item_meta c = Some cm \<Longrightarrow>
   version (doc_meta l) = version cm - 1 \<Longrightarrow>
   applyRemoteChange strat ui now c db =
     \<lparr>console = [], resolver_calls = [], put_calls = [c],
      result = Done (repo_put now c db)\<rparr>"
  by (simp add: applyRemoteChange_def)

lemma apply_conflict:
  "repo_get db (item_id c) = Some l \<Longrightarrow> item_meta c = Some cm \<Longrightarrow>
   version (doc_meta l) \<noteq> version cm - 1 \<Longrightarrow>
   resolve strat ui now l (item_doc c cm) = Some r \<Longrightarrow>
   applyRemoteChange strat ui now c db =
     \<lparr>console = [conflict_warning (item_id c)],
      resolver_calls = [(l, item_doc c cm)],
      put_calls = [doc_item r],
      result = Done (repo_put now (doc_item r) db)\<rparr>"
  by (simp add: applyRemoteChange_def)

lemma apply_unsettled:
  "repo_get db (item_id c) = Some l \<Longrightarrow> item_meta c = Some cm \<Longrightarrow>
   version (doc_meta l) \<noteq> version cm - 1 \<Longrightarrow>
   resolve strat ui now l (item_doc c cm) = None \<Longrightarrow>
   applyRemoteChange strat ui now c db =
     \<lparr>console = [conflict_warning (item_id c)],
      resolver_calls = [(l, item_doc c cm)],
      put_calls = [], result = NeverSettles\<rparr>"
  by (simp add: applyRemoteChange_def)

text \<open>An application completes exactly by its one call to \<open>put\<close>.\<close>

lemma apply_put_call:
  "put_calls (applyRemoteChange strat ui now c db) = [it] \<Longrightarrow>
   result (applyRemoteChange strat ui now c db) = Done (repo_put now it db)"
  by (auto simp: applyRemoteChange_def split: option.splits if_splits)

lemma apply_done:
  "result (applyRemoteChange strat ui now c db) = Done db' \<Longrightarrow>
   \<exists>it. put_calls (applyRemoteChange strat ui now c db) = [it] \<and> db' = repo_put now it db"
  by (auto simp: applyRemoteChange_def split: option.splits if_splits)

lemma apply_throws:
  "result (applyRemoteChange strat ui now c db) = Throws e \<Longrightarrow>
   put_calls (applyRemoteChange strat ui now c db) = []
   \<and> repo_get db (item_id c) \<noteq> None \<and> item_meta c = None"
  by (auto simp: applyRemoteChange_def split: option.splits if_splits)

lemma apply_never:
  "result (applyRemoteChange strat ui now c db) = NeverSettles \<Longrightarrow>
   put_calls (applyRemoteChange strat ui now c db) = [] \<and> strat = Manual"
  by (cases strat) (auto simp: applyRemoteChange_def resolve_def split: option.splits if_splits)

lemma resolver_calls_exact:
  "resolver_calls (applyRemoteChange strat ui now c db)
     = (case repo_get db (item_id c) of
          None \<Rightarrow> []
        | Some l \<Rightarrow>
            (case item_meta c of
               None \<Rightarrow> []
             | Some cm \<Rightarrow>
                 if version (doc_meta l) \<noteq> version cm - 1 then [(l, item_doc c cm)] else []))"
  by (simp add: applyRemoteChange_def split: option.splits)

lemma get_db_twice:
  "repo_get db_twice ''d1''
     = Some \<lparr>doc_id = ''d1'', doc_props = [''title'' \<mapsto> JStr ''L''],
             doc_meta = \<lparr>createdAt = 500, updatedAt = 3000, version = 2, deleted = False\<rparr>\<rparr>"
  by (simp add: repo_get_def db_twice_def doc_of_def)

lemma get_db_once_applied:
  "repo_get db_once_applied ''d1''
     = Some \<lparr>doc_id = ''d1'', doc_props = [''title'' \<mapsto> JStr ''L''],
             doc_meta = \<lparr>createdAt = 500, updatedAt = 5000, version = 3, deleted = False\<rparr>\<rparr>"
  by (simp add: repo_get_def db_once_applied_def doc_of_def)

lemma get_db_twice_applied:
  "repo_get db_twice_applied ''d1''
     = Some \<lparr>doc_id = ''d1'', doc_props = [''title'' \<mapsto> JStr ''R''],
             doc_meta = \<lparr>createdAt = 500, updatedAt = 6000, version = 4, deleted = False\<rparr>\<rparr>"
  by (simp add: repo_get_def db_twice_applied_def doc_of_def)

lemma get_db_s2:
  "repo_get db_s2 ''d2''
     = Some \<lparr>doc_id = ''d2'', doc_props = [''title'' \<mapsto> JStr ''L''],
             doc_meta = \<lparr>createdAt = 900, updatedAt = 1000, version = 3, deleted = False\<rparr>\<rparr>"
  by (simp add: repo_get_def db_s2_def doc_of_def)








section \<open>Facts about the network monitor\<close>

lemma online_setOnline: "online (setOnline v s) = v"
  by (simp add: setOnline_def)

lemma online_on_signal: "online (on_signal s st) = signal_value s"
  by (cases s) (auto simp: online_setOnline)


section \<open>Facts about vector clocks and reconciliation\<close>

lemma concurrent_step_flags:
  "concurrent_step c1 c2 k (g1, g2)
     = (g1 \<or> js_greater (clock_at c1 k) (clock_at c2 k),
        g2 \<or> js_greater (clock_at c2 k) (clock_at c1 k))"
  by (auto simp: concurrent_step_def Let_def)

lemma fold_concurrent_step:
  "fold (concurrent_step c1 c2) ks (g1, g2)
     = (g1 \<or> (\<exists>k \<in> set ks. js_greater (clock_at c1 k) (clock_at c2 k)),
        g2 \<or> (\<exists>k \<in> set ks. js_greater (clock_at c2 k) (clock_at c1 k)))"
proof (induction ks arbitrary: g1 g2)
  case Nil
  then show ?case by simp
next
  case (Cons k ks)
  show ?case
    by (simp add: concurrent_step_flags Cons.IH)
qed

lemma set_fold_set_add: "set (fold set_add xs acc) = set xs \<union> set acc"
  by (induction xs arbitrary: acc) (auto simp: set_add_def)

lemma set_allKeys: "set (allKeys c1 c2) = fst ` set c1 \<union> fst ` set c2"
  by (auto simp: allKeys_def new_Set_def set_fold_set_add)

lemma areConcurrent_keys:
  "areConcurrent c1 c2
     \<longleftrightarrow> (\<exists>k \<in> fst ` set c1 \<union> fst ` set c2. js_greater (clock_at c1 k) (clock_at c2 k))
       \<and> (\<exists>k \<in> fst ` set c1 \<union> fst ` set c2. js_greater (clock_at c2 k) (clock_at c1 k))"
  by (simp add: areConcurrent_def Let_def fold_concurrent_step set_allKeys)

lemma vc_at_absent: "k \<notin> fst ` set c \<Longrightarrow> vc_at c k = 0"
proof -
  assume "k \<notin> fst ` set c"
  then have "map_of c k = None"
    by (simp add: map_of_eq_None_iff)
  then show ?thesis
    by (simp add: vc_at_def)
qed

lemma clock_at_plain:
  "k \<notin> set object_prototype_members \<Longrightarrow> clock_at c k = Counter (vc_at c k)"
  by (simp add: clock_at_def vc_at_def num_or_def split: option.splits)

lemma greater_plain:
  assumes "plain_keys c1 c2"
  shows "(\<exists>k \<in> fst ` set c1 \<union> fst ` set c2. js_greater (clock_at c1 k) (clock_at c2 k))
           \<longleftrightarrow> (\<exists>k. vc_at c1 k > vc_at c2 k)"
proof
  assume "\<exists>k \<in> fst ` set c1 \<union> fst ` set c2. js_greater (clock_at c1 k) (clock_at c2 k)"
  then obtain k where k: "k \<in> fst ` set c1 \<union> fst ` set c2"
      "js_greater (clock_at c1 k) (clock_at c2 k)"
    by blast
  from k(1) assms have "k \<notin> set object_prototype_members"
    by (auto simp: plain_keys_def)
  with k(2) show "\<exists>k. vc_at c1 k > vc_at c2 k"
    by (auto simp: clock_at_plain)
next
  assume "\<exists>k. vc_at c1 k > vc_at c2 k"
  then obtain k where k: "vc_at c1 k > vc_at c2 k"
    by blast
  have in_keys: "k \<in> fst ` set c1 \<union> fst ` set c2"
  proof (rule ccontr)
    assume "k \<notin> fst ` set c1 \<union> fst ` set c2"
    then have "vc_at c1 k = 0" "vc_at c2 k = 0"
      by (simp_all add: vc_at_absent)
    with k show False by simp
  qed
  with assms have "k \<notin> set object_prototype_members"
    by (auto simp: plain_keys_def)
  with k have "js_greater (clock_at c1 k) (clock_at c2 k)"
    by (simp add: clock_at_plain)
  with in_keys show "\<exists>k \<in> fst ` set c1 \<union> fst ` set c2. js_greater (clock_at c1 k) (clock_at c2 k)"
    by blast
qed

lemma plain_keys_commute: "plain_keys c1 c2 = plain_keys c2 c1"
  by (auto simp: plain_keys_def)

lemma not_vc_leq: "\<not> vc_leq A B \<longleftrightarrow> (\<exists>k. vc_at A k > vc_at B k)"
  by (auto simp: vc_leq_def not_le)

lemma areConcurrent_plain:
  assumes "plain_keys c1 c2"
  shows "areConcurrent c1 c2 = vc_concurrent c1 c2"
proof -
  have p: "plain_keys c2 c1"
    using assms by (simp add: plain_keys_commute)
  have u: "fst ` set c1 \<union> fst ` set c2 = fst ` set c2 \<union> fst ` set c1"
    by blast
  show ?thesis
    unfolding areConcurrent_keys vc_concurrent_def not_vc_leq
    using greater_plain[OF assms] greater_plain[OF p] by (simp add: u)
qed

lemma vc_concurrent_toString_b: "vc_concurrent clock_toString clock_b"
proof -
  have "vc_at clock_toString ''toString'' > vc_at clock_b ''toString''"
    by (simp add: vc_at_def clock_toString_def clock_b_def)
  moreover have "vc_at clock_b ''b'' > vc_at clock_toString ''b''"
    by (simp add: vc_at_def clock_toString_def clock_b_def)
  ultimately show ?thesis
    unfolding vc_concurrent_def not_vc_leq by blast
qed

lemma not_areConcurrent_toString_b: "\<not> areConcurrent clock_toString clock_b"
  by (simp add: areConcurrent_def allKeys_def new_Set_def set_add_def concurrent_step_def
        clock_at_def num_or_def object_prototype_members_def clock_toString_def clock_b_def)

lemma decimal_2000: "decimal 2000 = ''2000''"
  by (simp add: decimal.simps)

text \<open>The reconciliation loop on one operation.\<close>

lemma resolveConflict_lww:
  "resolveConflict now
     \<lparr>conflictId = i, c_entityType = t, c_entityId = e, c_operations = op # ops,
      detectedAt = d, resolution = r\<rparr> LAST_WRITE_WINS
     = Some \<lparr>res_strategy = LAST_WRITE_WINS, resolvedAt = now,
             res_result = op_payload
                (fold (\<lambda>x latest. if op_timestamp x > op_timestamp latest then x else latest)
                   ops op)\<rparr>"
  by (simp add: resolveConflict_def Let_def)

lemma reconcile_step_cases:
  "reconcile_step request now op (conflicts, resolvedOperations, svc) =
     (case detectConflicts op
             (svc (operations_key (rq_tenantId request) (op_entityType op) (op_entityId op))) of
        [] \<Rightarrow> Some (conflicts, resolvedOperations @ [op], submitOperation op svc)
      | e # es \<Rightarrow>
          Some (conflicts @
                  [\<lparr>conflictId = ''conflict-'' @ decimal (nat now),
                    c_entityType = op_entityType op, c_entityId = op_entityId op,
                    c_operations = op # e # es, detectedAt = now,
                    resolution =
                      resolveConflict now
                        \<lparr>conflictId = ''conflict-'' @ decimal (nat now),
                         c_entityType = op_entityType op, c_entityId = op_entityId op,
                         c_operations = op # e # es, detectedAt = now, resolution = None\<rparr>
                        LAST_WRITE_WINS\<rparr>],
                resolvedOperations @
                  [op\<lparr>op_payload := op_payload
                        (fold (\<lambda>x latest. if op_timestamp x > op_timestamp latest then x else latest)
                           (e # es) op)\<rparr>],
                submitOperation op svc))"
proof (cases "detectConflicts op
             (svc (operations_key (rq_tenantId request) (op_entityType op) (op_entityId op)))")
  case Nil
  then show ?thesis
    by (simp add: reconcile_step_def Let_def)
next
  case (Cons e es)
  then show ?thesis
    unfolding reconcile_step_def Let_def
    by (simp add: resolveConflict_lww getWinningOperation_def del: fold_simps)
qed

lemma reconcile_step_let:
  "reconcile_step request now op (conflicts, resolvedOperations, svc) =
     (let existing = svc (operations_key (rq_tenantId request) (op_entityType op) (op_entityId op));
          concurrent = filter (\<lambda>e. areConcurrent (vectorClock op) (vectorClock e)) existing;
          latest = fold (\<lambda>x latest. if op_timestamp x > op_timestamp latest then x else latest)
                     concurrent op;
          conflict = \<lparr>conflictId = ''conflict-'' @ decimal (nat now),
                      c_entityType = op_entityType op, c_entityId = op_entityId op,
                      c_operations = op # concurrent, detectedAt = now,
                      resolution = Some \<lparr>res_strategy = LAST_WRITE_WINS, resolvedAt = now,
                                         res_result = op_payload latest\<rparr>\<rparr>
      in if concurrent = []
         then Some (conflicts, resolvedOperations @ [op], submitOperation op svc)
         else Some (conflicts @ [conflict],
                    resolvedOperations @ [op\<lparr>op_payload := op_payload latest\<rparr>],
                    submitOperation op svc))"
  unfolding reconcile_step_cases Let_def
  by (simp add: detectConflicts_def resolveConflict_lww split: list.splits del: fold_simps)

lemma reconcile_single:
  assumes "rq_operations request = [op]"
  shows "reconcile request now svc =
     (let existing = svc (operations_key (rq_tenantId request) (op_entityType op) (op_entityId op));
          concurrent = filter (\<lambda>e. areConcurrent (vectorClock op) (vectorClock e)) existing;
          latest = fold (\<lambda>x latest. if op_timestamp x > op_timestamp latest then x else latest)
                     concurrent op;
          conflict = \<lparr>conflictId = ''conflict-'' @ decimal (nat now),
                      c_entityType = op_entityType op, c_entityId = op_entityId op,
                      c_operations = op # concurrent, detectedAt = now,
                      resolution = Some \<lparr>res_strategy = LAST_WRITE_WINS, resolvedAt = now,
                                         res_result = op_payload latest\<rparr>\<rparr>
      in Done (\<lparr>rs_requestId = requestId request,
                 rs_conflicts = (if concurrent = [] then [] else [conflict]),
                 rs_resolvedOperations =
                   [if concurrent = [] then op else op\<lparr>op_payload := op_payload latest\<rparr>],
                 currentVersion = ''v-'' @ decimal (nat now), completedAt = now\<rparr>,
               submitOperation op svc))"
  unfolding reconcile_def assms reconcile_loop.simps reconcile_step_let Let_def
  by simp


section \<open>Facts about the realtime service\<close>

lemma validate_accepts:
  "validateMessage sock data uuid now = Inr m \<Longrightarrow>
   tenantId m = sock_tenantId sock \<and> senderId m = sock_userId sock \<and> messageId m = uuid"
  by (auto simp: validateMessage_def split: if_splits)

lemma validate_foreign_tenant:
  "str_truthy (d_tenantId data) \<Longrightarrow> d_tenantId data \<noteq> Some (sock_tenantId sock) \<Longrightarrow>
   \<exists>e. validateMessage sock data uuid now = Inl e"
  by (simp add: validateMessage_def)

lemma validate_tenant_field:
  "validateMessage sock data uuid now = Inr m \<Longrightarrow>
   validateMessage sock (data\<lparr>d_tenantId := t\<rparr>) uuid now = Inr m' \<Longrightarrow> m' = m"
  by (auto simp: validateMessage_def split: if_splits)

lemma report_error_keeps:
  "published (report_error sock e st) = published st"
  "message_queue (report_error sock e st) = message_queue st"
  "presence (report_error sock e st) = presence st"
  "room_members (report_error sock e st) = room_members st"
  "socket_rooms (report_error sock e st) = socket_rooms st"
  "logger (report_error sock e st) = logger st @ [LogError ''Error handling message'' e]"
  "emitted (report_error sock e st) = emitted st @ [(socket_id sock, EvError (error_message e))]"
  by (simp_all add: report_error_def)

lemma checkRateLimit_keeps:
  "published (fst (checkRateLimit lim sock st)) = published st"
  "message_queue (fst (checkRateLimit lim sock st)) = message_queue st"
  "presence (fst (checkRateLimit lim sock st)) = presence st"
  "room_members (fst (checkRateLimit lim sock st)) = room_members st"
  "socket_rooms (fst (checkRateLimit lim sock st)) = socket_rooms st"
  "logger (fst (checkRateLimit lim sock st)) = logger st"
  "emitted (fst (checkRateLimit lim sock st)) = emitted st"
  by (simp_all add: checkRateLimit_def Let_def)

lemma refused_report:
  "refused sock st (report_error sock e (fst (checkRateLimit lim sock st)))"
  by (simp add: refused_def report_error_keeps checkRateLimit_keeps)

lemma handle_foreign_tenant:
  assumes "str_truthy (d_tenantId data)" "d_tenantId data \<noteq> Some (sock_tenantId sock)"
  shows "refused sock st (handleMessage lim sock data uuid now st)"
proof -
  obtain e where e: "validateMessage sock data uuid now = Inl e"
    using validate_foreign_tenant[OF assms] by blast
  obtain st1 r where c: "checkRateLimit lim sock st = (st1, r)"
    by (cases "checkRateLimit lim sock st")
  then have st1: "st1 = fst (checkRateLimit lim sock st)" by simp
  show ?thesis
  proof (cases r)
    case None
    with c e have "handleMessage lim sock data uuid now st = report_error sock e st1"
      by (simp add: handleMessage_def)
    then show ?thesis by (simp add: st1 refused_report)
  next
    case (Some e')
    with c have "handleMessage lim sock data uuid now st = report_error sock e' st1"
      by (simp add: handleMessage_def)
    then show ?thesis by (simp add: st1 refused_report)
  qed
qed

text \<open>What \<open>handleMessage\<close> publishes: nothing, or the one validated message.\<close>

lemma handle_published:
  "published (handleMessage lim sock data uuid now st) = published st
   \<or> (\<exists>m channel. validateMessage sock data uuid now = Inr m
         \<and> (channel = ''user:'' @ sock_tenantId sock @ '':'' @ opt_str (recipientId m)
              \<or> channel = ''room:'' @ sock_tenantId sock @ '':'' @ opt_str (roomId m))
         \<and> published (handleMessage lim sock data uuid now st) = published st @ [(channel, m)])"
proof -
  obtain st1 r where c: "checkRateLimit lim sock st = (st1, r)"
    by (cases "checkRateLimit lim sock st")
  then have st1: "published st1 = published st"
    using checkRateLimit_keeps(1)[of lim sock st] by simp
  show ?thesis
  proof (cases r)
    case (Some e)
    with c st1 show ?thesis
      by (simp add: handleMessage_def report_error_keeps)
  next
    case None
    show ?thesis
    proof (cases "validateMessage sock data uuid now")
      case (Inl e)
      with c None st1 show ?thesis
        by (simp add: handleMessage_def report_error_keeps)
    next
      case (Inr m)
      have t: "tenantId m = sock_tenantId sock"
        using validate_accepts[OF Inr] by simp
      show ?thesis
        using c None Inr st1 t
        by (auto simp: handleMessage_def Let_def report_error_keeps sendDirectMessage_def
              broadcastToRoom_def publish_def split: sum.splits if_splits)
    qed
  qed
qed

lemma handle_room_data:
  assumes "d_type data = Some ty" "ty \<noteq> []" "truthy (d_payload data)"
    "\<not> str_truthy (d_tenantId data)" "\<not> str_truthy (d_recipientId data)"
    "d_roomId data = Some r" "r \<noteq> []" "rate_limit st (''rate_limit:'' @ socket_id sock) < lim"
  shows "handleMessage lim sock data uuid now st
     = st\<lparr>rate_limit := (rate_limit st)
              (''rate_limit:'' @ socket_id sock := rate_limit st (''rate_limit:'' @ socket_id sock) + 1),
           published := published st
             @ [(''room:'' @ sock_tenantId sock @ '':'' @ r,
                 \<lparr>messageId = uuid, msg_type = ty,
                  interactionClass = (case d_interactionClass data of Some c \<Rightarrow> c | None \<Rightarrow> CLASS_C),
                  tenantId = sock_tenantId sock, senderId = sock_userId sock,
                  recipientId = d_recipientId data, roomId = Some r,
                  payload = d_payload data, timestamp = now, metadata = d_metadata data\<rparr>)],
           emitted := emitted st @ [(socket_id sock, EvMessageAck uuid)]\<rparr>"
  using assms
  by (simp add: handleMessage_def checkRateLimit_def Let_def validateMessage_def
        broadcastToRoom_def publish_def opt_str_def)

lemma handleMessage_keeps:
  "socket_rooms (handleMessage lim sock data uuid now st) = socket_rooms st"
  "room_members (handleMessage lim sock data uuid now st) = room_members st"
  "presence (handleMessage lim sock data uuid now st) = presence st"
  "message_queue (handleMessage lim sock data uuid now st) = message_queue st"
  "connections (handleMessage lim sock data uuid now st) = connections st"
  "live_sockets (handleMessage lim sock data uuid now st) = live_sockets st"
  by (auto simp: handleMessage_def checkRateLimit_def Let_def report_error_def
        sendDirectMessage_def broadcastToRoom_def publish_def split: sum.splits)

lemma handleMessage_rate_limit:
  "rate_limit (handleMessage lim sock data uuid now st)
     = (rate_limit st)(''rate_limit:'' @ socket_id sock
          := rate_limit st (''rate_limit:'' @ socket_id sock) + 1)"
  by (auto simp: handleMessage_def checkRateLimit_def Let_def report_error_def
        sendDirectMessage_def broadcastToRoom_def publish_def split: sum.splits)

lemma handleMessage_emitted:
  "\<exists>e. emitted (handleMessage lim sock data uuid now st) = emitted st @ [(socket_id sock, e)]"
  by (auto simp: handleMessage_def checkRateLimit_def Let_def report_error_def
        sendDirectMessage_def broadcastToRoom_def publish_def split: sum.splits)

lemma handleMessage_cong:
  assumes "rate_limit st1 = rate_limit st2" "published st1 = published st2"
    "logger st1 = logger st2" "emitted st1 = emitted st2"
  shows "published (handleMessage lim sock data uuid now st1)
           = published (handleMessage lim sock data uuid now st2)"
    and "logger (handleMessage lim sock data uuid now st1)
           = logger (handleMessage lim sock data uuid now st2)"
    and "emitted (handleMessage lim sock data uuid now st1)
           = emitted (handleMessage lim sock data uuid now st2)"
  using assms
  by (auto simp: handleMessage_def checkRateLimit_def Let_def report_error_def
        sendDirectMessage_def broadcastToRoom_def publish_def split: sum.splits)

lemma takeWhile_colon:
  "colon_free a \<Longrightarrow> takeWhile (\<lambda>c. c \<noteq> CHR '':'') (a @ CHR '':'' # x) = a"
  by (induction a) (auto simp: colon_free_def)

lemma colon_split:
  assumes "colon_free a" "colon_free b" "a @ '':'' @ x = b @ '':'' @ y"
  shows "a = b"
proof -
  have "takeWhile (\<lambda>c. c \<noteq> CHR '':'') (a @ '':'' @ x) = a"
    using takeWhile_colon[OF assms(1)] by simp
  moreover have "takeWhile (\<lambda>c. c \<noteq> CHR '':'') (b @ '':'' @ y) = b"
    using takeWhile_colon[OF assms(2)] by simp
  ultimately show ?thesis
    using assms(3) by simp
qed

lemma starts_with_append: "starts_with p s \<longleftrightarrow> (\<exists>r. s = p @ r)"
proof
  assume "starts_with p s"
  then have "s = p @ drop (length p) s"
    unfolding starts_with_def by (metis append_take_drop_id)
  then show "\<exists>r. s = p @ r" ..
next
  assume "\<exists>r. s = p @ r"
  then show "starts_with p s"
    by (auto simp: starts_with_def)
qed

lemma starts_with_same: "starts_with (p @ x) (p @ y) = starts_with x y"
  by (simp add: starts_with_def)

lemma key_other_tenant:
  assumes "colon_free t" "colon_free t'" "t \<noteq> t'"
  shows "\<not> starts_with (t' @ '':'') (t @ '':'' @ x)"
proof
  assume "starts_with (t' @ '':'') (t @ '':'' @ x)"
  then obtain r where "t @ '':'' @ x = (t' @ '':'') @ r"
    unfolding starts_with_append by blast
  then have "t @ '':'' @ x = t' @ '':'' @ r"
    by simp
  from colon_split[OF assms(1,2) this] assms(3) show False
    by simp
qed

lemma key_neq:
  assumes "colon_free t" "colon_free t'" "t \<noteq> t'"
  shows "t @ '':'' @ x \<noteq> t' @ '':'' @ y"
  using colon_split[OF assms(1,2)] assms(3) by blast

lemma set_set_add: "set (set_add x xs) = insert x (set xs)"
  by (auto simp: set_add_def)

lemma own_key_cons: "starts_with (t @ '':'') (t @ CHR '':'' # x)"
  by (simp add: starts_with_def)

text \<open>A step for one tenant leaves what the service holds for another as it was.\<close>

lemma view_step:
  assumes "colon_free t" "colon_free t'" "t \<noteq> t'" "event_tenant ev = t"
  shows "tenant_view t' (rt_step lim ev st) = tenant_view t' st"
proof -
  from assms(3) have ne: "t' \<noteq> t"
    by blast
  note k = key_neq[OF assms(2,1) ne] key_neq[OF assms(1,2,3)]
  show ?thesis
  proof (cases ev)
    case (OnMessage sock data uuid now)
    then show ?thesis
      by (simp add: tenant_view_def handleMessage_keeps)
  next
    case (OnJoinRoom sock room)
    with assms(4) have "sock_tenantId sock = t" by simp
    with OnJoinRoom k show ?thesis
      by (simp add: tenant_view_def handleJoinRoom_def Let_def)
  next
    case (OnLeaveRoom sock room)
    with assms(4) have "sock_tenantId sock = t" by simp
    with OnLeaveRoom k show ?thesis
      by (simp add: tenant_view_def handleLeaveRoom_def Let_def)
  next
    case (OnPresenceUpdate sock status md now)
    with assms(4) have "sock_tenantId sock = t" by simp
    with OnPresenceUpdate k show ?thesis
      by (simp add: tenant_view_def handlePresenceUpdate_def updatePresence_def Let_def)
  next
    case (OnRedis channel message)
    with assms(4) have "tenantId message = t" by simp
    with OnRedis k show ?thesis
      by (simp add: tenant_view_def deliverDirectMessage_def deliverRoomMessage_def
            queueMessageForLater_def Let_def)
  qed
qed

text \<open>What a step for one tenant does is the same whatever the service holds for another.\<close>

lemma recipient_connections_outside:
  assumes "filter (\<lambda>conn. conn_tenantId conn \<noteq> t') (map snd (connections st1))
             = filter (\<lambda>conn. conn_tenantId conn \<noteq> t') (map snd (connections st2))"
    and "tenantId m \<noteq> t'"
  shows "recipient_connections m st1 = recipient_connections m st2"
proof -
  have r: "recipient_connections m st
          = filter (\<lambda>conn. Some (conn_userId conn) = recipientId m \<and> conn_tenantId conn = tenantId m)
              (filter (\<lambda>conn. conn_tenantId conn \<noteq> t') (map snd (connections st)))" for st
    using assms(2) unfolding recipient_connections_def filter_filter
    by (intro filter_cong) auto
  show ?thesis
    by (simp only: r assms(1))
qed

lemma outside_step:
  assumes "colon_free t" "colon_free t'" "t \<noteq> t'" "event_tenant ev = t"
    and s: "same_outside t' st1 st2"
  shows "same_outside t' (rt_step lim ev st1) (rt_step lim ev st2)"
proof -
  note k = key_other_tenant[OF assms(1,2,3)]
  have k2: "\<not> starts_with (p @ t' @ '':'') (p @ t @ '':'' @ x)" for p x
    using k[of x] starts_with_same[of p "t' @ '':''" "t @ '':'' @ x"] by simp
  from s have rooms: "\<And>k. \<not> starts_with (t' @ '':'') k \<Longrightarrow> socket_rooms st1 k = socket_rooms st2 k"
    and members: "\<And>k. \<not> starts_with (''room_members:'' @ t' @ '':'') k \<Longrightarrow>
                    room_members st1 k = room_members st2 k"
    and pres: "\<And>k. \<not> starts_with (''presence:'' @ t' @ '':'') k \<Longrightarrow> presence st1 k = presence st2 k"
    and queues: "\<And>k. \<not> starts_with (''message_queue:'' @ t' @ '':'') k \<Longrightarrow>
                    message_queue st1 k = message_queue st2 k"
    and conns: "filter (\<lambda>conn. conn_tenantId conn \<noteq> t') (map snd (connections st1))
                  = filter (\<lambda>conn. conn_tenantId conn \<noteq> t') (map snd (connections st2))"
    and rest: "live_sockets st1 = live_sockets st2" "rate_limit st1 = rate_limit st2"
      "published st1 = published st2" "logger st1 = logger st2" "emitted st1 = emitted st2"
    unfolding same_outside_def by blast+
  show ?thesis
  proof (cases ev)
    case (OnMessage sock data uuid now)
    show ?thesis
      unfolding OnMessage rt_step.simps same_outside_def handleMessage_keeps
        handleMessage_rate_limit
      using s handleMessage_cong[OF rest(2,3,4,5), of lim sock data uuid now]
      by (simp add: same_outside_def)
  next
    case (OnJoinRoom sock room)
    with assms(4) have t: "sock_tenantId sock = t" by simp
    have a: "socket_rooms st1 (t @ '':'' @ room) = socket_rooms st2 (t @ '':'' @ room)"
      by (rule rooms[OF k])
    have b: "room_members st1 (''room_members:'' @ t @ '':'' @ room)
               = room_members st2 (''room_members:'' @ t @ '':'' @ room)"
      by (rule members[OF k2])
    show ?thesis
      unfolding OnJoinRoom rt_step.simps same_outside_def
      using rooms members pres queues conns rest a b
      by (simp add: handleJoinRoom_def Let_def t)
  next
    case (OnLeaveRoom sock room)
    with assms(4) have t: "sock_tenantId sock = t" by simp
    have a: "socket_rooms st1 (t @ '':'' @ room) = socket_rooms st2 (t @ '':'' @ room)"
      by (rule rooms[OF k])
    have b: "room_members st1 (''room_members:'' @ t @ '':'' @ room)
               = room_members st2 (''room_members:'' @ t @ '':'' @ room)"
      by (rule members[OF k2])
    show ?thesis
      unfolding OnLeaveRoom rt_step.simps same_outside_def
      using rooms members pres queues conns rest a b
      by (simp add: handleLeaveRoom_def Let_def t)
  next
    case (OnPresenceUpdate sock status md now)
    show ?thesis
      unfolding OnPresenceUpdate rt_step.simps same_outside_def
      using rooms members pres queues conns rest
      by (simp add: handlePresenceUpdate_def updatePresence_def Let_def)
  next
    case (OnRedis channel message)
    with assms(4) have t: "tenantId message = t" by simp
    have rc: "recipient_connections message st1 = recipient_connections message st2"
      using recipient_connections_outside[OF conns] t assms(3) by simp
    have a: "socket_rooms st1 (t @ '':'' @ opt_str (roomId message))
               = socket_rooms st2 (t @ '':'' @ opt_str (roomId message))"
      by (rule rooms[OF k])
    have b: "message_queue st1 (''message_queue:'' @ t @ '':'' @ opt_str (recipientId message))
               = message_queue st2 (''message_queue:'' @ t @ '':'' @ opt_str (recipientId message))"
      by (rule queues[OF k2])
    show ?thesis
      unfolding OnRedis rt_step.simps same_outside_def
      using rooms members pres queues conns rest a b rc
      by (simp add: deliverDirectMessage_def deliverRoomMessage_def queueMessageForLater_def
            Let_def t)
  qed
qed

lemma new_emitted_append: "emitted st' = emitted st @ x \<Longrightarrow> new_emitted st st' = x"
  by (simp add: new_emitted_def)

lemma new_published_append: "published st' = published st @ x \<Longrightarrow> new_published st st' = x"
  by (simp add: new_published_def)

text \<open>What a step emits.\<close>

lemma step_emitted:
  "\<exists>x. emitted (rt_step lim ev st) = emitted st @ x
       \<and> (\<forall>(sid, e) \<in> set x.
             (\<forall>m. e = EvMessage m \<longrightarrow> tenantId m = event_tenant ev)
             \<and> (case ev of
                  OnRedis channel message \<Rightarrow>
                    (\<exists>conn \<in> set (map snd (connections st)).
                        connectionId conn = sid \<and> conn_tenantId conn = tenantId message)
                    \<or> sid \<in> set (socket_rooms st (tenantId message @ '':'' @ opt_str (roomId message)))
                | OnMessage sock data uuid now \<Rightarrow> sid = socket_id sock
                | OnJoinRoom sock room \<Rightarrow> sid = socket_id sock
                | OnLeaveRoom sock room \<Rightarrow> sid = socket_id sock
                | OnPresenceUpdate sock status md now \<Rightarrow> sid = socket_id sock))"
proof (cases ev)
  case (OnMessage sock data uuid now)
  obtain e where e: "emitted (handleMessage lim sock data uuid now st)
                       = emitted st @ [(socket_id sock, e)]"
    using handleMessage_emitted by blast
  have "\<forall>m. e \<noteq> EvMessage m"
    using e
    by (auto simp: handleMessage_def checkRateLimit_def Let_def report_error_def
          sendDirectMessage_def broadcastToRoom_def publish_def split: sum.splits if_splits)
  with e OnMessage show ?thesis
    by simp
next
  case (OnJoinRoom sock room)
  then show ?thesis
    by (simp add: handleJoinRoom_def Let_def)
next
  case (OnLeaveRoom sock room)
  then show ?thesis
    by (simp add: handleLeaveRoom_def Let_def)
next
  case (OnPresenceUpdate sock status md now)
  then show ?thesis
    by (simp add: handlePresenceUpdate_def updatePresence_def Let_def)
next
  case (OnRedis channel message)
  then show ?thesis
    by (auto simp: deliverDirectMessage_def deliverRoomMessage_def queueMessageForLater_def
          recipient_connections_def Let_def)
qed

lemma step_emitted_split:
  "emitted (rt_step lim ev st) = emitted st @ new_emitted st (rt_step lim ev st)"
  using step_emitted[of lim ev st] by (auto simp: new_emitted_def)

lemma step_emitted_message:
  "\<forall>(sid, e) \<in> set (new_emitted st (rt_step lim ev st)).
      \<forall>m. e = EvMessage m \<longrightarrow> tenantId m = event_tenant ev"
proof -
  obtain x where x: "emitted (rt_step lim ev st) = emitted st @ x"
      "\<forall>(sid, e) \<in> set x. \<forall>m. e = EvMessage m \<longrightarrow> tenantId m = event_tenant ev"
    using step_emitted[of lim ev st] by fast
  from new_emitted_append[OF x(1)] x(2) show ?thesis
    by simp
qed

lemma authentic_step:
  assumes "authentic owner st" "event_authentic owner ev"
  shows "authentic owner (rt_step lim ev st)"
proof (cases ev)
  case (OnMessage sock data uuid now)
  with assms(1) show ?thesis
    by (simp add: authentic_def handleMessage_keeps)
next
  case (OnJoinRoom sock room)
  with assms have "owner (socket_id sock) = sock_tenantId sock"
    by simp
  with assms(1) OnJoinRoom show ?thesis
    by (auto simp: authentic_def handleJoinRoom_def Let_def set_set_add own_key_cons)
next
  case (OnLeaveRoom sock room)
  with assms(1) show ?thesis
    by (auto simp: authentic_def handleLeaveRoom_def Let_def)
next
  case (OnPresenceUpdate sock status md now)
  with assms(1) show ?thesis
    by (simp add: authentic_def handlePresenceUpdate_def updatePresence_def Let_def)
next
  case (OnRedis channel message)
  with assms(1) show ?thesis
    by (simp add: authentic_def deliverDirectMessage_def deliverRoomMessage_def
          queueMessageForLater_def Let_def)
qed

lemma no_emission_to_other:
  assumes "colon_free t" "colon_free t'" "t \<noteq> t'" "event_tenant ev = t"
    and a: "authentic owner st" and e: "event_authentic owner ev"
  shows "\<forall>(sid, e) \<in> set (new_emitted st (rt_step lim ev st)). owner sid \<noteq> t'"
proof -
  obtain x where x: "emitted (rt_step lim ev st) = emitted st @ x"
      "\<forall>(sid, e) \<in> set x.
          (case ev of
             OnRedis channel message \<Rightarrow>
               (\<exists>conn \<in> set (map snd (connections st)).
                   connectionId conn = sid \<and> conn_tenantId conn = tenantId message)
               \<or> sid \<in> set (socket_rooms st (tenantId message @ '':'' @ opt_str (roomId message)))
           | OnMessage sock data uuid now \<Rightarrow> sid = socket_id sock
           | OnJoinRoom sock room \<Rightarrow> sid = socket_id sock
           | OnLeaveRoom sock room \<Rightarrow> sid = socket_id sock
           | OnPresenceUpdate sock status md now \<Rightarrow> sid = socket_id sock)"
    using step_emitted[of lim ev st] by fast
  have "owner sid \<noteq> t'" if "(sid, ev') \<in> set x" for sid ev'
  proof (cases ev)
    case (OnRedis channel message)
    with assms(4) have t: "tenantId message = t" by simp
    from x(2) that OnRedis
    consider (conn) conn where "conn \<in> set (map snd (connections st))"
        "connectionId conn = sid" "conn_tenantId conn = tenantId message"
      | (room) "sid \<in> set (socket_rooms st (tenantId message @ '':'' @ opt_str (roomId message)))"
      by fastforce
    then show ?thesis
    proof cases
      case conn
      with a have "owner sid = tenantId message"
        by (auto simp: authentic_def)
      with t assms(3) show ?thesis by simp
    next
      case room
      with a t have "starts_with (owner sid @ '':'') (t @ '':'' @ opt_str (roomId message))"
        by (auto simp: authentic_def)
      with key_other_tenant[OF assms(1,2,3)] show ?thesis
        by auto
    qed
  next
    case (OnMessage sock data uuid now)
    with x(2) that e assms(3,4) show ?thesis by fastforce
  next
    case (OnJoinRoom sock room)
    with x(2) that e assms(3,4) show ?thesis by fastforce
  next
    case (OnLeaveRoom sock room)
    with x(2) that e assms(3,4) show ?thesis by fastforce
  next
    case (OnPresenceUpdate sock status md now)
    with x(2) that e assms(3,4) show ?thesis by fastforce
  qed
  with new_emitted_append[OF x(1)] show ?thesis
    by auto
qed

lemma rate_limit_other:
  assumes "event_tenant ev \<noteq> t'" "event_authentic owner ev" "owner sid = t'"
  shows "rate_limit (rt_step lim ev st) (''rate_limit:'' @ sid) = rate_limit st (''rate_limit:'' @ sid)"
proof (cases ev)
  case (OnMessage sock data uuid now)
  with assms have "sid \<noteq> socket_id sock"
    by auto
  with OnMessage show ?thesis
    by (simp add: handleMessage_rate_limit)
next
  case (OnJoinRoom sock room)
  then show ?thesis
    by (simp add: handleJoinRoom_def Let_def)
next
  case (OnLeaveRoom sock room)
  then show ?thesis
    by (simp add: handleLeaveRoom_def Let_def)
next
  case (OnPresenceUpdate sock status md now)
  then show ?thesis
    by (simp add: handlePresenceUpdate_def updatePresence_def Let_def)
next
  case (OnRedis channel message)
  then show ?thesis
    by (simp add: deliverDirectMessage_def deliverRoomMessage_def queueMessageForLater_def Let_def)
qed

text \<open>What a step publishes.\<close>

lemma step_published:
  "\<exists>x. published (rt_step lim ev st) = published st @ x
       \<and> (\<forall>(channel, m) \<in> set x.
             tenantId m = event_tenant ev
             \<and> (starts_with (''user:'' @ event_tenant ev @ '':'') channel
                  \<or> starts_with (''room:'' @ event_tenant ev @ '':'') channel))"
proof (cases ev)
  case (OnMessage sock data uuid now)
  from handle_published[of lim sock data uuid now st]
  show ?thesis
  proof
    assume "published (handleMessage lim sock data uuid now st) = published st"
    with OnMessage show ?thesis by simp
  next
    assume "\<exists>m channel. validateMessage sock data uuid now = Inr m
         \<and> (channel = ''user:'' @ sock_tenantId sock @ '':'' @ opt_str (recipientId m)
              \<or> channel = ''room:'' @ sock_tenantId sock @ '':'' @ opt_str (roomId m))
         \<and> published (handleMessage lim sock data uuid now st) = published st @ [(channel, m)]"
    then obtain m channel where m: "validateMessage sock data uuid now = Inr m"
        "channel = ''user:'' @ sock_tenantId sock @ '':'' @ opt_str (recipientId m)
           \<or> channel = ''room:'' @ sock_tenantId sock @ '':'' @ opt_str (roomId m)"
        "published (handleMessage lim sock data uuid now st) = published st @ [(channel, m)]"
      by blast
    from validate_accepts[OF m(1)] have t: "tenantId m = sock_tenantId sock"
      by simp
    from m(2) have "starts_with (''user:'' @ sock_tenantId sock @ '':'') channel
                  \<or> starts_with (''room:'' @ sock_tenantId sock @ '':'') channel"
      by (auto simp: starts_with_def)
    with OnMessage m(3) t show ?thesis
      by simp
  qed
next
  case (OnJoinRoom sock room)
  then show ?thesis
    by (simp add: handleJoinRoom_def Let_def)
next
  case (OnLeaveRoom sock room)
  then show ?thesis
    by (simp add: handleLeaveRoom_def Let_def)
next
  case (OnPresenceUpdate sock status md now)
  then show ?thesis
    by (simp add: handlePresenceUpdate_def updatePresence_def Let_def)
next
  case (OnRedis channel message)
  then show ?thesis
    by (simp add: deliverDirectMessage_def deliverRoomMessage_def queueMessageForLater_def Let_def)
qed

lemma step_published_split:
  "published (rt_step lim ev st) = published st @ new_published st (rt_step lim ev st)"
  using step_published[of lim ev st] by (auto simp: new_published_def)

lemma step_published_tenant:
  "\<forall>(channel, m) \<in> set (new_published st (rt_step lim ev st)).
      tenantId m = event_tenant ev
      \<and> (starts_with (''user:'' @ event_tenant ev @ '':'') channel
           \<or> starts_with (''room:'' @ event_tenant ev @ '':'') channel)"
proof -
  obtain x where x: "published (rt_step lim ev st) = published st @ x"
      "\<forall>(channel, m) \<in> set x.
             tenantId m = event_tenant ev
             \<and> (starts_with (''user:'' @ event_tenant ev @ '':'') channel
                  \<or> starts_with (''room:'' @ event_tenant ev @ '':'') channel)"
    using step_published[of lim ev st] by blast
  from new_published_append[OF x(1)] x(2) show ?thesis
    by simp
qed


section \<open>The claims\<close>

text \<open>
  C1, as stated, fails. In the offline store, repository operations take no tenant and
  the store is keyed by \<open>id\<close> alone (the tenant of a record is its \<open>tenantId\<close>
  property, as in scenario S1): \<open>getAll\<close> returns the records of tenant \<open>t1\<close> and
  of tenant \<open>t2\<close> together, to whoever calls it, and a \<open>put\<close> of an item of tenant
  \<open>t2\<close> with id \<open>d1\<close> reads tenant \<open>t1\<close>'s record \<open>d1\<close> and overwrites it,
  carrying its version on (version 2). On the realtime channel a key is the tenant and
  a name joined by a colon, so tenant \<open>a:b\<close> with room \<open>c\<close> and tenant \<open>a\<close> with
  room \<open>b:c\<close> share the Socket.IO room \<open>a:b:c\<close> and the member set
  \<open>room_members:a:b:c\<close>: the message a connection of tenant \<open>a\<close> sends to its room
  \<open>b:c\<close> is published on \<open>room:a:b:c\<close> and emitted to the socket of tenant
  \<open>a:b\<close> that joined \<open>c\<close>.
\<close>

theorem C1_counterexample:
  "map tenant_of (repo_getAll (repo_put 2000 item_d2_t2 (repo_put 1000 item_d1_t1 empty_db)))
     = [JStr ''t1'', JStr ''t2'']
   \<and> map_option tenant_of (repo_get (repo_put 1000 item_d1_t1 empty_db) ''d1'')
       = Some (JStr ''t1'')
   \<and> map_option (\<lambda>d. (tenant_of d, prop_of d ''title'', version (doc_meta d)))
        (repo_get (repo_put 2000 item_d1_t2 (repo_put 1000 item_d1_t1 empty_db)) ''d1'')
       = Some (JStr ''t2'', JStr ''B'', 2)
   \<and> sock_tenantId sock_ab = ''a:b'' \<and> sock_tenantId sock_a = ''a''
   \<and> socket_rooms (rt_step 100 (OnJoinRoom sock_ab ''c'') idle) ''a:b:c'' = [''s9'']
   \<and> room_members (rt_step 100 (OnJoinRoom sock_ab ''c'') idle) ''room_members:a:b:c'' = {''u9''}
   \<and> room_members (rt_step 100 (OnJoinRoom sock_a ''b:c'')
                      (rt_step 100 (OnJoinRoom sock_ab ''c'') idle)) ''room_members:a:b:c''
       = {''u8'', ''u9''}
   \<and> published (rt_step 100 (OnMessage sock_a room_bc_data ''uuid-2'' 2000)
                   (rt_step 100 (OnJoinRoom sock_ab ''c'') idle))
       = [(''room:a:b:c'', message_a)]
   \<and> tenantId message_a = ''a''
   \<and> emitted (rt_step 100 (OnRedis ''room:a:b:c'' message_a)
                 (rt_step 100 (OnJoinRoom sock_ab ''c'') idle))
       = [(''s9'', EvRoomJoined ''c''), (''s9'', EvMessage message_a)]"
proof -
  have i: "item_id item_d1_t1 = ''d1''" "item_id item_d1_t2 = ''d1''" "item_id item_d2_t2 = ''d2''"
    by (simp_all add: item_d1_t1_def item_d1_t2_def item_d2_t2_def)
  have e: "repo_get empty_db ''d1'' = None"
    by (simp add: repo_get_def empty_db_def)
  have all: "map tenant_of (repo_getAll (repo_put 2000 item_d2_t2 (repo_put 1000 item_d1_t1 empty_db)))
     = [JStr ''t1'', JStr ''t2'']"
    by (simp add: repo_getAll_def repo_put_def repo_get_def empty_db_def item_d1_t1_def
          item_d2_t2_def doc_of_def tenant_of_def prop_of_def)
  have one: "map_option tenant_of (repo_get (repo_put 1000 item_d1_t1 empty_db) ''d1'')
       = Some (JStr ''t1'')"
    by (simp add: repo_get_put i e tenant_of_def prop_of_def) (simp add: item_d1_t1_def)
  have two: "map_option (\<lambda>d. (tenant_of d, prop_of d ''title'', version (doc_meta d)))
        (repo_get (repo_put 2000 item_d1_t2 (repo_put 1000 item_d1_t1 empty_db)) ''d1'')
       = Some (JStr ''t2'', JStr ''B'', 2)"
    by (simp add: repo_get_put i e tenant_of_def prop_of_def stamp_def) (simp add: item_d1_t2_def)
  have socks: "sock_tenantId sock_ab = ''a:b''" "sock_tenantId sock_a = ''a''"
    by (simp_all add: sock_ab_def sock_a_def)
  have rooms: "socket_rooms (rt_step 100 (OnJoinRoom sock_ab ''c'') idle) ''a:b:c'' = [''s9'']"
    by (simp add: handleJoinRoom_def Let_def sock_ab_def idle_def set_add_def)
  have members: "room_members (rt_step 100 (OnJoinRoom sock_ab ''c'') idle) ''room_members:a:b:c''
                   = {''u9''}"
    by (simp add: handleJoinRoom_def Let_def sock_ab_def idle_def)
  have members2: "room_members (rt_step 100 (OnJoinRoom sock_a ''b:c'')
                      (rt_step 100 (OnJoinRoom sock_ab ''c'') idle)) ''room_members:a:b:c''
                   = {''u8'', ''u9''}"
    by (simp add: handleJoinRoom_def Let_def sock_ab_def sock_a_def idle_def)
  have pub: "published (rt_step 100 (OnMessage sock_a room_bc_data ''uuid-2'' 2000)
                   (rt_step 100 (OnJoinRoom sock_ab ''c'') idle))
       = [(''room:a:b:c'', message_a)]"
    by (simp add: handleMessage_def checkRateLimit_def validateMessage_def broadcastToRoom_def
          publish_def handleJoinRoom_def Let_def opt_str_def room_bc_data_def room_data_def
          sock_a_def sock_ab_def idle_def message_a_def)
  have ten: "tenantId message_a = ''a''"
    by (simp add: message_a_def)
  have em: "emitted (rt_step 100 (OnRedis ''room:a:b:c'' message_a)
                 (rt_step 100 (OnJoinRoom sock_ab ''c'') idle))
       = [(''s9'', EvRoomJoined ''c''), (''s9'', EvMessage message_a)]"
    by (simp add: deliverRoomMessage_def handleJoinRoom_def Let_def opt_str_def sock_ab_def
          idle_def set_add_def) (simp add: message_a_def)
  from all one two socks rooms members members2 pub ten em show ?thesis
    by simp
qed

text \<open>
  C1, amended: tenant isolation on the realtime channel, between tenants whose
  identifiers contain no colon; the offline store has none. A message whose declared
  \<open>tenantId\<close> is non-empty and differs from the authenticated connection's tenant is
  refused (nothing published or queued, rooms and presence untouched) and the refusal
  is logged and reported to the sender. Whatever a step publishes carries the tenant
  the event is executed for and goes to that tenant's \<open>user:\<close> or \<open>room:\<close>
  channel, and a message a step emits is a message of that tenant. For an event of
  tenant \<open>t\<close> and another tenant \<open>t'\<close>, both without a colon: the step leaves what
  the service holds for \<open>t'\<close> (Socket.IO rooms, member sets, presence entries,
  offline queues, connections) as it was; the step does the same in two states that
  differ only in what they hold for \<open>t'\<close>, so nothing of \<open>t'\<close> is read; and from an
  authentic state, on an authentic event, the state stays authentic, nothing is
  emitted to a socket of \<open>t'\<close> and no rate-limit counter of a socket of \<open>t'\<close>
  changes.
\<close>

theorem C1_realtime_tenant_isolation:
  "(str_truthy (d_tenantId data) \<longrightarrow> d_tenantId data \<noteq> Some (sock_tenantId sock) \<longrightarrow>
      refused sock st (rt_step lim (OnMessage sock data uuid now) st))
   \<and> published (rt_step lim ev st) = published st @ new_published st (rt_step lim ev st)
   \<and> (\<forall>(channel, m) \<in> set (new_published st (rt_step lim ev st)).
         tenantId m = event_tenant ev
         \<and> (starts_with (''user:'' @ event_tenant ev @ '':'') channel
              \<or> starts_with (''room:'' @ event_tenant ev @ '':'') channel))
   \<and> emitted (rt_step lim ev st) = emitted st @ new_emitted st (rt_step lim ev st)
   \<and> (\<forall>(sid, e) \<in> set (new_emitted st (rt_step lim ev st)).
         \<forall>m. e = EvMessage m \<longrightarrow> tenantId m = event_tenant ev)
   \<and> (colon_free (event_tenant ev) \<longrightarrow> colon_free t' \<longrightarrow> event_tenant ev \<noteq> t' \<longrightarrow>
        tenant_view t' (rt_step lim ev st) = tenant_view t' st
        \<and> (same_outside t' st1 st2 \<longrightarrow>
             same_outside t' (rt_step lim ev st1) (rt_step lim ev st2))
        \<and> (authentic owner st \<longrightarrow> event_authentic owner ev \<longrightarrow>
             authentic owner (rt_step lim ev st)
             \<and> (\<forall>(sid, e) \<in> set (new_emitted st (rt_step lim ev st)). owner sid \<noteq> t')
             \<and> (\<forall>sid. owner sid = t' \<longrightarrow>
                   rate_limit (rt_step lim ev st) (''rate_limit:'' @ sid)
                     = rate_limit st (''rate_limit:'' @ sid))))"
proof (intro conjI impI allI)
  assume "str_truthy (d_tenantId data)" "d_tenantId data \<noteq> Some (sock_tenantId sock)"
  then show "refused sock st (rt_step lim (OnMessage sock data uuid now) st)"
    by (simp add: handle_foreign_tenant)
next
  show "published (rt_step lim ev st) = published st @ new_published st (rt_step lim ev st)"
    by (rule step_published_split)
  show "\<forall>(channel, m) \<in> set (new_published st (rt_step lim ev st)).
         tenantId m = event_tenant ev
         \<and> (starts_with (''user:'' @ event_tenant ev @ '':'') channel
              \<or> starts_with (''room:'' @ event_tenant ev @ '':'') channel)"
    by (rule step_published_tenant)
  show "emitted (rt_step lim ev st) = emitted st @ new_emitted st (rt_step lim ev st)"
    by (rule step_emitted_split)
  show "\<forall>(sid, e) \<in> set (new_emitted st (rt_step lim ev st)).
         \<forall>m. e = EvMessage m \<longrightarrow> tenantId m = event_tenant ev"
    by (rule step_emitted_message)
next
  assume c: "colon_free (event_tenant ev)" "colon_free t'" "event_tenant ev \<noteq> t'"
  show "tenant_view t' (rt_step lim ev st) = tenant_view t' st"
    by (rule view_step[OF c refl])
next
  assume c: "colon_free (event_tenant ev)" "colon_free t'" "event_tenant ev \<noteq> t'"
    and "same_outside t' st1 st2"
  then show "same_outside t' (rt_step lim ev st1) (rt_step lim ev st2)"
    by (intro outside_step[OF c refl])
next
  assume "authentic owner st" "event_authentic owner ev"
  then show "authentic owner (rt_step lim ev st)"
    by (rule authentic_step)
next
  assume c: "colon_free (event_tenant ev)" "colon_free t'" "event_tenant ev \<noteq> t'"
    and a: "authentic owner st" "event_authentic owner ev"
  show "\<forall>(sid, e) \<in> set (new_emitted st (rt_step lim ev st)). owner sid \<noteq> t'"
    by (rule no_emission_to_other[OF c refl a])
next
  fix sid
  assume "event_tenant ev \<noteq> t'" "event_authentic owner ev" "owner sid = t'"
  then show "rate_limit (rt_step lim ev st) (''rate_limit:'' @ sid)
               = rate_limit st (''rate_limit:'' @ sid)"
    by (rule rate_limit_other)
qed

theorem C1_realtime_tenant_isolation_witness:
  "str_truthy (d_tenantId (room_data\<lparr>d_tenantId := Some ''t2''\<rparr>))
   \<and> d_tenantId (room_data\<lparr>d_tenantId := Some ''t2''\<rparr>) \<noteq> Some (sock_tenantId sock_u1)
   \<and> refused sock_u1 two_tenants
        (rt_step 100 (OnMessage sock_u1 (room_data\<lparr>d_tenantId := Some ''t2''\<rparr>) ''uuid-1'' 1000)
           two_tenants)
   \<and> event_tenant (OnRedis ''user:t1:u2'' direct_message) = ''t1''
   \<and> colon_free ''t1'' \<and> colon_free ''t2'' \<and> ''t1'' \<noteq> ''t2''
   \<and> authentic scenario_owner two_tenants
   \<and> event_authentic scenario_owner (OnRedis ''user:t1:u2'' direct_message)
   \<and> scenario_owner ''s3'' = ''t2''
   \<and> same_outside ''t2'' two_tenants
        (two_tenants\<lparr>message_queue := (message_queue two_tenants)
                                          (''message_queue:t2:u2'' := [direct_message])\<rparr>)
   \<and> emitted (rt_step 100 (OnRedis ''user:t1:u2'' direct_message) two_tenants)
       = [(''s2'', EvMessage direct_message)]
   \<and> new_emitted two_tenants (rt_step 100 (OnRedis ''user:t1:u2'' direct_message) two_tenants)
       = [(''s2'', EvMessage direct_message)]
   \<and> tenant_view ''t2'' (rt_step 100 (OnRedis ''user:t1:u2'' direct_message) two_tenants)
       = tenant_view ''t2'' two_tenants
   \<and> same_outside ''t2''
        (rt_step 100 (OnRedis ''user:t1:u2'' direct_message) two_tenants)
        (rt_step 100 (OnRedis ''user:t1:u2'' direct_message)
           (two_tenants\<lparr>message_queue := (message_queue two_tenants)
                                             (''message_queue:t2:u2'' := [direct_message])\<rparr>))
   \<and> authentic scenario_owner (rt_step 100 (OnRedis ''user:t1:u2'' direct_message) two_tenants)
   \<and> rate_limit (rt_step 100 (OnRedis ''user:t1:u2'' direct_message) two_tenants)
        ''rate_limit:s3'' = rate_limit two_tenants ''rate_limit:s3''"
proof -
  let ?data = "room_data\<lparr>d_tenantId := Some ''t2''\<rparr>"
  let ?ev = "OnRedis ''user:t1:u2'' direct_message"
  let ?st2 = "two_tenants\<lparr>message_queue := (message_queue two_tenants)
                                             (''message_queue:t2:u2'' := [direct_message])\<rparr>"
  have h1: "str_truthy (d_tenantId ?data)"
    by simp
  have h2: "d_tenantId ?data \<noteq> Some (sock_tenantId sock_u1)"
    by (simp add: sock_u1_def)
  have et: "event_tenant ?ev = ''t1''"
    by (simp add: direct_message_def)
  have cf: "colon_free ''t1''" "colon_free ''t2''" "''t1'' \<noteq> ''t2''"
    by (simp_all add: colon_free_def)
  have au: "authentic scenario_owner two_tenants"
    by (simp add: authentic_def two_tenants_def idle_def scenario_owner_def)
  have ea: "event_authentic scenario_owner ?ev"
    by simp
  have ow: "scenario_owner ''s3'' = ''t2''"
    by (simp add: scenario_owner_def)
  have so: "same_outside ''t2'' two_tenants ?st2"
    by (simp add: same_outside_def starts_with_def)
  have em: "emitted (rt_step 100 ?ev two_tenants) = [(''s2'', EvMessage direct_message)]"
    by (simp add: deliverDirectMessage_def Let_def recipient_connections_def two_tenants_def
          idle_def direct_message_def)
  have e0: "emitted two_tenants = []"
    by (simp add: two_tenants_def idle_def)
  note t = C1_realtime_tenant_isolation
             [where data = ?data and sock = sock_u1 and st = two_tenants and lim = 100
                and uuid = "''uuid-1''" and now = 1000 and ev = ?ev and t' = "''t2''"
                and ?st1.0 = two_tenants and ?st2.0 = ?st2 and owner = scenario_owner]
  from t h1 h2 have r: "refused sock_u1 two_tenants
        (rt_step 100 (OnMessage sock_u1 ?data ''uuid-1'' 1000) two_tenants)"
    by blast
  from t have "emitted (rt_step 100 ?ev two_tenants)
                 = emitted two_tenants @ new_emitted two_tenants (rt_step 100 ?ev two_tenants)"
    by blast
  with em e0 have ne: "new_emitted two_tenants (rt_step 100 ?ev two_tenants)
                         = [(''s2'', EvMessage direct_message)]"
    by simp
  from cf et have cf': "colon_free (event_tenant ?ev)" "colon_free ''t2''"
      "event_tenant ?ev \<noteq> ''t2''"
    by simp_all
  from t cf' have v: "tenant_view ''t2'' (rt_step 100 ?ev two_tenants) = tenant_view ''t2'' two_tenants"
    by blast
  from t cf' so have so': "same_outside ''t2'' (rt_step 100 ?ev two_tenants) (rt_step 100 ?ev ?st2)"
    by blast
  from t cf' au ea have au': "authentic scenario_owner (rt_step 100 ?ev two_tenants)"
    by blast
  from t cf' au ea have "\<forall>sid. scenario_owner sid = ''t2'' \<longrightarrow>
                   rate_limit (rt_step 100 ?ev two_tenants) (''rate_limit:'' @ sid)
                     = rate_limit two_tenants (''rate_limit:'' @ sid)"
    by blast
  with ow have rl: "rate_limit (rt_step 100 ?ev two_tenants) ''rate_limit:s3''
                      = rate_limit two_tenants ''rate_limit:s3''"
    by fastforce
  show ?thesis
    using h1 h2 r et cf au ea ow so em ne v so' au' rl by blast
qed

text \<open>
  C2. \<open>put(item)\<close> stamps \<open>createdAt\<close> (kept, or now for a new record),
  \<open>updatedAt = now\<close>, \<open>version = previous + 1\<close> (from 0) and \<open>deleted = false\<close>,
  and is claimed to append a create-or-update mutation to the mutation log in the same
  transaction. The stamping is as claimed; the mutation log is never written: \<open>put\<close>
  leaves \<open>pendingMutations\<close> as it was for every item and store, and for the document
  of the repository's own test \<open>should queue mutations when offline\<close>, put into an
  empty database at time 1000, the queue is still empty afterwards (the test expects
  it to be non-empty).
\<close>

theorem C2_put_queues_no_mutation:
  "pendingMutations (repo_put now it db) = pendingMutations db
   \<and> pendingMutations (repo_put 1000 offline_doc empty_db) = []
   \<and> map_option doc_meta (repo_get (repo_put 1000 offline_doc empty_db) ''2'')
       = Some \<lparr>createdAt = 1000, updatedAt = 1000, version = 1, deleted = False\<rparr>"
proof -
  have i: "item_id offline_doc = ''2''"
    by (simp add: offline_doc_def)
  have e: "repo_get empty_db ''2'' = None"
    by (simp add: repo_get_def empty_db_def)
  have "map_option doc_meta (repo_get (repo_put 1000 offline_doc empty_db) ''2'')
          = Some (stamp 1000 None)"
    by (simp add: repo_get_put i e)
  moreover have "pendingMutations (repo_put 1000 offline_doc empty_db) = []"
    by (simp add: pending_put empty_db_def)
  ultimately show ?thesis
    by (simp add: pending_put stamp_def)
qed

text \<open>
  C3, as stated, fails: \<open>delete(id)\<close> on a record at version 3 writes the tombstone
  with version 3 again, so the version does not strictly increase over that write.
\<close>

theorem C3_counterexample:
  "version_of db_v3 ''d1'' = Some 3
   \<and> version_of (repo_delete 2000 ''d1'' db_v3) ''d1'' = Some 3
   \<and> map_option (\<lambda>d. deleted (doc_meta d)) (repo_get (repo_delete 2000 ''d1'' db_v3) ''d1'')
       = Some True"
  by (simp add: version_of_def repo_get_delete) (simp add: repo_get_def db_v3_def doc_of_def)

text \<open>
  C3, amended. Over every write the version of a record never decreases, and a write
  touches the version of no other record. \<open>put\<close> leaves its own record at the
  previous version plus one (1 for a new record). \<open>delete(id)\<close> rewrites an existing
  record with \<open>deleted = true\<close> and \<open>updatedAt = now\<close> and keeps every version,
  that of its own record included. An application of a remote change by the sync
  engine that completes has made exactly one \<open>put\<close>, and the store is the result of
  that \<open>put\<close>; an application that does not complete has made none: it throws (a
  change without \<open>_meta\<close> over an existing record) or it never settles (manual
  strategy).
\<close>

theorem C3_version_never_decreases:
  "version_of (repo_put now it db) j
     = (if j = item_id it then Some (prev_version db j + 1) else version_of db j)
   \<and> never_decreases db (repo_put now it db)
   \<and> repo_get (repo_delete now i db) j
       = (if j = i
          then map_option
                 (\<lambda>d. d\<lparr>doc_meta := (doc_meta d)\<lparr>updatedAt := now, deleted := True\<rparr>\<rparr>)
                 (repo_get db i)
          else repo_get db j)
   \<and> version_of (repo_delete now i db) j = version_of db j
   \<and> never_decreases db (repo_delete now i db)
   \<and> (case result (applyRemoteChange strat ui now c db) of
         Done db' \<Rightarrow>
           (\<exists>written. put_calls (applyRemoteChange strat ui now c db) = [written]
                      \<and> db' = repo_put now written db)
           \<and> never_decreases db db'
       | Throws e \<Rightarrow>
           put_calls (applyRemoteChange strat ui now c db) = []
           \<and> repo_get db (item_id c) \<noteq> None \<and> item_meta c = None
       | NeverSettles \<Rightarrow>
           put_calls (applyRemoteChange strat ui now c db) = [] \<and> strat = Manual)"
proof (intro conjI)
  show "version_of (repo_put now it db) j
     = (if j = item_id it then Some (prev_version db j + 1) else version_of db j)"
    by (rule version_put)
  show "never_decreases db (repo_put now it db)"
    by (rule never_decreases_put)
  show "repo_get (repo_delete now i db) j
       = (if j = i
          then map_option
                 (\<lambda>d. d\<lparr>doc_meta := (doc_meta d)\<lparr>updatedAt := now, deleted := True\<rparr>\<rparr>)
                 (repo_get db i)
          else repo_get db j)"
    by (rule repo_get_delete)
  show "version_of (repo_delete now i db) j = version_of db j"
    by (rule version_delete)
  show "never_decreases db (repo_delete now i db)"
    by (rule never_decreases_delete)
  show "case result (applyRemoteChange strat ui now c db) of
         Done db' \<Rightarrow>
           (\<exists>written. put_calls (applyRemoteChange strat ui now c db) = [written]
                      \<and> db' = repo_put now written db)
           \<and> never_decreases db db'
       | Throws e \<Rightarrow>
           put_calls (applyRemoteChange strat ui now c db) = []
           \<and> repo_get db (item_id c) \<noteq> None \<and> item_meta c = None
       | NeverSettles \<Rightarrow>
           put_calls (applyRemoteChange strat ui now c db) = [] \<and> strat = Manual"
  proof (cases "result (applyRemoteChange strat ui now c db)")
    case (Done db')
    from apply_done[OF Done] obtain written
      where w: "put_calls (applyRemoteChange strat ui now c db) = [written]"
               "db' = repo_put now written db"
      by blast
    then have "never_decreases db db'"
      by (simp add: never_decreases_put)
    with w Done show ?thesis by simp
  next
    case (Throws e)
    from apply_throws[OF Throws]
    have "put_calls (applyRemoteChange strat ui now c db) = []"
         "repo_get db (item_id c) \<noteq> None" "item_meta c = None"
      by blast+
    with Throws show ?thesis by simp
  next
    case NeverSettles
    from apply_never[OF NeverSettles]
    have "put_calls (applyRemoteChange strat ui now c db) = []" "strat = Manual"
      by blast+
    with NeverSettles show ?thesis by simp
  qed
qed

theorem C3_version_never_decreases_witness:
  "version_of db_s2 ''d2'' = Some 3
   \<and> version_of (repo_put 3000 change_s2 db_s2) ''d2'' = Some 4
   \<and> version_of (repo_delete 3000 ''d2'' db_s2) ''d2'' = Some 3
   \<and> result (applyRemoteChange Manual no_ui 3000 change_twice db_twice) = NeverSettles
   \<and> put_calls (applyRemoteChange Manual no_ui 3000 change_twice db_twice) = []
   \<and> result (applyRemoteChange LastWriteWins no_ui 3000 (change_s2\<lparr>item_meta := None\<rparr>) db_s2)
       = Throws ''TypeError''
   \<and> result (applyRemoteChange LastWriteWins no_ui 3000 change_s2 db_s2)
       = Done (repo_put 3000 change_s2 db_s2)
   \<and> never_decreases db_s2 (repo_put 3000 change_s2 db_s2)"
proof -
  have g: "repo_get db_s2 ''d2''
             = Some \<lparr>doc_id = ''d2'', doc_props = [''title'' \<mapsto> JStr ''L''],
                     doc_meta = \<lparr>createdAt = 900, updatedAt = 1000, version = 3,
                                 deleted = False\<rparr>\<rparr>"
    by (rule get_db_s2)
  have v: "version_of db_s2 ''d2'' = Some 3"
    by (simp add: version_of_def g)
  have p: "prev_version db_s2 ''d2'' = 3"
    by (simp add: prev_version_def v)
  have i: "item_id change_s2 = ''d2''"
    by (simp add: change_s2_def)
  have never: "applyRemoteChange Manual no_ui 3000 change_twice db_twice
                 = \<lparr>console = [conflict_warning ''d1''],
                    resolver_calls =
                      [(\<lparr>doc_id = ''d1'', doc_props = [''title'' \<mapsto> JStr ''L''],
                         doc_meta = \<lparr>createdAt = 500, updatedAt = 3000, version = 2,
                                     deleted = False\<rparr>\<rparr>,
                        item_doc change_twice
                          \<lparr>createdAt = 400, updatedAt = 2000, version = 4, deleted = False\<rparr>)],
                    put_calls = [], result = NeverSettles\<rparr>"
    using apply_unsettled[where db = db_twice and c = change_twice and strat = Manual
                            and ui = no_ui and now = 3000, OF _ _ _ _]
          get_db_twice
    by (simp add: change_twice_def resolve_def no_ui_def)
  have throws: "applyRemoteChange LastWriteWins no_ui 3000 (change_s2\<lparr>item_meta := None\<rparr>) db_s2
                  = \<lparr>console = [], resolver_calls = [], put_calls = [],
                     result = Throws ''TypeError''\<rparr>"
    using g by (intro apply_no_meta) (simp_all add: i)
  have forward: "applyRemoteChange LastWriteWins no_ui 3000 change_s2 db_s2
                   = \<lparr>console = [], resolver_calls = [], put_calls = [change_s2],
                      result = Done (repo_put 3000 change_s2 db_s2)\<rparr>"
  proof (rule apply_forward)
    show "repo_get db_s2 (item_id change_s2)
            = Some \<lparr>doc_id = ''d2'', doc_props = [''title'' \<mapsto> JStr ''L''],
                    doc_meta = \<lparr>createdAt = 900, updatedAt = 1000, version = 3,
                                deleted = False\<rparr>\<rparr>"
      by (simp add: i g)
    show "item_meta change_s2
            = Some \<lparr>createdAt = 900, updatedAt = 2000, version = 4, deleted = False\<rparr>"
      by (simp add: change_s2_def)
  qed simp
  note t1 = C3_version_never_decreases
              [where now = 3000 and it = change_s2 and db = db_s2 and j = "''d2''"
                 and i = "''d2''" and strat = LastWriteWins and ui = no_ui and c = change_s2]
  from t1 have a: "version_of (repo_put 3000 change_s2 db_s2) ''d2'' = Some 4"
    by (simp add: i p)
  from t1 have b: "version_of (repo_delete 3000 ''d2'' db_s2) ''d2'' = Some 3"
    by (simp add: v)
  from t1 have c: "never_decreases db_s2 (repo_put 3000 change_s2 db_s2)"
    by blast
  show ?thesis
    using v a b c never throws forward by simp
qed

text \<open>
  C4, as stated, fails. A local record at version 2 (updated at 3000) meets an incoming
  change at version 4 (updated at 2000) under last-write-wins. The first application
  (at 5000) is a conflict the local side wins: title \<open>L\<close>, version 3. The second
  application of the same change (at 6000) now sees version 3 = 4 - 1 and writes the
  change through: title \<open>R\<close>, version 4, updatedAt 6000. Payload, version and
  updatedAt all change on re-application; there is no short-circuit.
\<close>

theorem C4_counterexample:
  "result (applyRemoteChange LastWriteWins no_ui 5000 change_twice db_twice)
     = Done db_once_applied
   \<and> result (applyRemoteChange LastWriteWins no_ui 6000 change_twice db_once_applied)
     = Done db_twice_applied
   \<and> map_option (\<lambda>d. (prop_of d ''title'', version (doc_meta d), updatedAt (doc_meta d)))
        (repo_get db_once_applied ''d1'') = Some (JStr ''L'', 3, 5000)
   \<and> map_option (\<lambda>d. (prop_of d ''title'', version (doc_meta d), updatedAt (doc_meta d)))
        (repo_get db_twice_applied ''d1'') = Some (JStr ''R'', 4, 6000)"
proof -
  have i: "item_id change_twice = ''d1''"
    by (simp add: change_twice_def)
  have first: "result (applyRemoteChange LastWriteWins no_ui 5000 change_twice db_twice)
                 = Done db_once_applied"
    unfolding applyRemoteChange_def i get_db_twice
    by (simp add: change_twice_def resolve_def lastWriteWins_def item_doc_def doc_item_def
          repo_put_def repo_get_def db_twice_def db_once_applied_def doc_of_def num_or_def)
  have second: "result (applyRemoteChange LastWriteWins no_ui 6000 change_twice db_once_applied)
                 = Done db_twice_applied"
    unfolding applyRemoteChange_def i get_db_once_applied
    by (simp add: change_twice_def repo_put_def repo_get_def db_once_applied_def
          db_twice_applied_def doc_of_def num_or_def)
  show ?thesis
    using first second by (simp add: get_db_once_applied get_db_twice_applied prop_of_def)
qed

text \<open>
  C4, amended. Re-applying a remote change is not a no-op: there is no short-circuit
  on the local version, and every application that completes has rewritten a record
  through one \<open>put\<close>, which stores the object it was given under that object's id
  with the version stored there before plus one, \<open>updatedAt = now\<close>, and leaves
  every other record as it was. When no local record existed before the first
  application (change carrying \<open>_meta\<close>, any strategy but manual), the first
  application stores the change's properties at version 1, and applying the identical
  change again completes and stores the same properties, with version 2 and
  \<open>updatedAt\<close> set to the time of the second application; no other record changes.
\<close>

theorem C4_reapplication_rewrites:
  "(\<forall>written. put_calls (applyRemoteChange strat ui now c db) = [written] \<longrightarrow>
       result (applyRemoteChange strat ui now c db) = Done (repo_put now written db)
       \<and> (\<forall>j. repo_get (repo_put now written db) j
               = (if j = item_id written
                  then Some \<lparr>doc_id = item_id written, doc_props = item_props written,
                             doc_meta =
                               \<lparr>createdAt = (case repo_get db (item_id written) of
                                               None \<Rightarrow> now
                                             | Some e \<Rightarrow> num_or (createdAt (doc_meta e)) now),
                                updatedAt = now,
                                version = prev_version db (item_id written) + 1,
                                deleted = False\<rparr>\<rparr>
                  else repo_get db j)))
   \<and> (\<forall>db'. result (applyRemoteChange strat ui now c db) = Done db' \<longrightarrow>
         (\<exists>written. put_calls (applyRemoteChange strat ui now c db) = [written]))
   \<and> (repo_get db (item_id c) = None \<longrightarrow> strat \<noteq> Manual \<longrightarrow> item_meta c \<noteq> None \<longrightarrow>
        applyRemoteChange strat ui t1 c db
          = \<lparr>console = [], resolver_calls = [], put_calls = [c],
             result = Done (repo_put t1 c db)\<rparr>
        \<and> repo_get (repo_put t1 c db) (item_id c)
            = Some \<lparr>doc_id = item_id c, doc_props = item_props c,
                    doc_meta = \<lparr>createdAt = t1, updatedAt = t1, version = 1,
                                deleted = False\<rparr>\<rparr>
        \<and> (\<exists>again. put_calls (applyRemoteChange strat ui t2 c (repo_put t1 c db)) = [again]
              \<and> result (applyRemoteChange strat ui t2 c (repo_put t1 c db))
                  = Done (repo_put t2 again (repo_put t1 c db))
              \<and> (\<forall>j. repo_get (repo_put t2 again (repo_put t1 c db)) j
                      = (if j = item_id c
                         then Some \<lparr>doc_id = item_id c, doc_props = item_props c,
                                    doc_meta = \<lparr>createdAt = num_or t1 t2, updatedAt = t2,
                                                version = 2, deleted = False\<rparr>\<rparr>
                         else repo_get db j))))"
proof (intro conjI allI impI)
  fix written
  assume "put_calls (applyRemoteChange strat ui now c db) = [written]"
  then show "result (applyRemoteChange strat ui now c db) = Done (repo_put now written db)"
    by (rule apply_put_call)
next
  fix written j
  show "repo_get (repo_put now written db) j
               = (if j = item_id written
                  then Some \<lparr>doc_id = item_id written, doc_props = item_props written,
                             doc_meta =
                               \<lparr>createdAt = (case repo_get db (item_id written) of
                                               None \<Rightarrow> now
                                             | Some e \<Rightarrow> num_or (createdAt (doc_meta e)) now),
                                updatedAt = now,
                                version = prev_version db (item_id written) + 1,
                                deleted = False\<rparr>\<rparr>
                  else repo_get db j)"
    by (rule repo_get_put_explicit)
next
  fix db'
  assume "result (applyRemoteChange strat ui now c db) = Done db'"
  from apply_done[OF this]
  show "\<exists>written. put_calls (applyRemoteChange strat ui now c db) = [written]"
    by blast
next
  assume absent: "repo_get db (item_id c) = None"
  show "applyRemoteChange strat ui t1 c db
          = \<lparr>console = [], resolver_calls = [], put_calls = [c],
             result = Done (repo_put t1 c db)\<rparr>"
    by (rule apply_absent[OF absent])
  show "repo_get (repo_put t1 c db) (item_id c)
            = Some \<lparr>doc_id = item_id c, doc_props = item_props c,
                    doc_meta = \<lparr>createdAt = t1, updatedAt = t1, version = 1,
                                deleted = False\<rparr>\<rparr>"
    by (simp add: repo_get_put absent stamp_def)
next
  assume absent: "repo_get db (item_id c) = None"
    and strat: "strat \<noteq> Manual" and cm: "item_meta c \<noteq> None"
  let ?db1 = "repo_put t1 c db"
  let ?l = "\<lparr>doc_id = item_id c, doc_props = item_props c,
             doc_meta = \<lparr>createdAt = t1, updatedAt = t1, version = 1, deleted = False\<rparr>\<rparr>"
  obtain m where m: "item_meta c = Some m"
    using cm by blast
  have l: "repo_get ?db1 (item_id c) = Some ?l"
    by (simp add: repo_get_put absent stamp_def)
  have "\<exists>again. put_calls (applyRemoteChange strat ui t2 c ?db1) = [again]
           \<and> item_id again = item_id c \<and> item_props again = item_props c"
  proof (cases "version (doc_meta ?l) = version m - 1")
    case True
    from apply_forward[OF l m True] show ?thesis by simp
  next
    case False
    obtain r where r: "resolve strat ui t2 ?l (item_doc c m) = Some r"
      using resolve_total[OF strat] by blast
    have "doc_id ?l = doc_id (item_doc c m)" "doc_props ?l = doc_props (item_doc c m)"
      by (simp_all add: item_doc_def)
    with resolve_id[OF strat _ r] resolve_props[OF strat _ r]
    have "item_id (doc_item r) = item_id c" "item_props (doc_item r) = item_props c"
      by (simp_all add: doc_item_def item_doc_def)
    with apply_conflict[OF l m False r] show ?thesis by simp
  qed
  then obtain again where again:
      "put_calls (applyRemoteChange strat ui t2 c ?db1) = [again]"
      "item_id again = item_id c" "item_props again = item_props c"
    by blast
  have res: "result (applyRemoteChange strat ui t2 c ?db1) = Done (repo_put t2 again ?db1)"
    using again(1) by (rule apply_put_call)
  have frame: "repo_get (repo_put t2 again ?db1) j
                 = (if j = item_id c
                    then Some \<lparr>doc_id = item_id c, doc_props = item_props c,
                               doc_meta = \<lparr>createdAt = num_or t1 t2, updatedAt = t2,
                                           version = 2, deleted = False\<rparr>\<rparr>
                    else repo_get db j)" for j
    using again(2,3) l by (simp add: repo_get_put stamp_def)
  show "\<exists>again. put_calls (applyRemoteChange strat ui t2 c (repo_put t1 c db)) = [again]
              \<and> result (applyRemoteChange strat ui t2 c (repo_put t1 c db))
                  = Done (repo_put t2 again (repo_put t1 c db))
              \<and> (\<forall>j. repo_get (repo_put t2 again (repo_put t1 c db)) j
                      = (if j = item_id c
                         then Some \<lparr>doc_id = item_id c, doc_props = item_props c,
                                    doc_meta = \<lparr>createdAt = num_or t1 t2, updatedAt = t2,
                                                version = 2, deleted = False\<rparr>\<rparr>
                         else repo_get db j))"
    using again(1) res frame by blast
qed

theorem C4_reapplication_rewrites_witness:
  "repo_get empty_db (item_id change_s2) = None
   \<and> FirstWriteWins \<noteq> Manual \<and> item_meta change_s2 \<noteq> None
   \<and> put_calls (applyRemoteChange FirstWriteWins no_ui 5000 change_s2 empty_db) = [change_s2]
   \<and> result (applyRemoteChange FirstWriteWins no_ui 5000 change_s2 empty_db)
       = Done (repo_put 5000 change_s2 empty_db)
   \<and> map_option (\<lambda>d. (prop_of d ''title'', version (doc_meta d), updatedAt (doc_meta d)))
        (repo_get (repo_put 5000 change_s2 empty_db) ''d2'') = Some (JStr ''R'', 1, 5000)
   \<and> (\<exists>again. result (applyRemoteChange FirstWriteWins no_ui 6000 change_s2
                          (repo_put 5000 change_s2 empty_db))
                  = Done (repo_put 6000 again (repo_put 5000 change_s2 empty_db))
          \<and> map_option (\<lambda>d. (prop_of d ''title'', version (doc_meta d), updatedAt (doc_meta d)))
               (repo_get (repo_put 6000 again (repo_put 5000 change_s2 empty_db)) ''d2'')
              = Some (JStr ''R'', 2, 6000))"
proof -
  have a: "repo_get empty_db (item_id change_s2) = None"
    by (simp add: repo_get_def empty_db_def)
  have s: "FirstWriteWins \<noteq> Manual"
    by simp
  have m: "item_meta change_s2 \<noteq> None"
    by (simp add: change_s2_def)
  have i: "item_id change_s2 = ''d2''" "item_props change_s2 = [''title'' \<mapsto> JStr ''R'']"
    by (simp_all add: change_s2_def)
  note t = C4_reapplication_rewrites
             [where strat = FirstWriteWins and ui = no_ui and now = 5000 and c = change_s2
                and db = empty_db and ?t1.0 = 5000 and ?t2.0 = 6000]
  from t a s m have first:
      "applyRemoteChange FirstWriteWins no_ui 5000 change_s2 empty_db
         = \<lparr>console = [], resolver_calls = [], put_calls = [change_s2],
            result = Done (repo_put 5000 change_s2 empty_db)\<rparr>"
    by blast
  from t a s m have stored:
      "repo_get (repo_put 5000 change_s2 empty_db) (item_id change_s2)
         = Some \<lparr>doc_id = item_id change_s2, doc_props = item_props change_s2,
                 doc_meta = \<lparr>createdAt = 5000, updatedAt = 5000, version = 1,
                             deleted = False\<rparr>\<rparr>"
    by blast
  from t a s m obtain again where again:
      "result (applyRemoteChange FirstWriteWins no_ui 6000 change_s2
                 (repo_put 5000 change_s2 empty_db))
         = Done (repo_put 6000 again (repo_put 5000 change_s2 empty_db))"
      "\<forall>j. repo_get (repo_put 6000 again (repo_put 5000 change_s2 empty_db)) j
            = (if j = item_id change_s2
               then Some \<lparr>doc_id = item_id change_s2, doc_props = item_props change_s2,
                          doc_meta = \<lparr>createdAt = num_or 5000 6000, updatedAt = 6000,
                                      version = 2, deleted = False\<rparr>\<rparr>
               else repo_get empty_db j)"
    by blast
  from again(2) have second:
      "map_option (\<lambda>d. (prop_of d ''title'', version (doc_meta d), updatedAt (doc_meta d)))
         (repo_get (repo_put 6000 again (repo_put 5000 change_s2 empty_db)) ''d2'')
         = Some (JStr ''R'', 2, 6000)"
    by (simp add: i prop_of_def)
  from stored have one:
      "map_option (\<lambda>d. (prop_of d ''title'', version (doc_meta d), updatedAt (doc_meta d)))
         (repo_get (repo_put 5000 change_s2 empty_db) ''d2'') = Some (JStr ''R'', 1, 5000)"
    by (simp add: i prop_of_def)
  show ?thesis
    using a s m first one again(1) second by auto
qed

text \<open>
  C5, as stated, fails on its own scenario S2. Local version 3 and incoming version 4
  are parent and child (3 = 4 - 1), so the pull phase declares no conflict and does not
  call the resolver: the incoming change is written through \<open>put\<close>, the stored record
  has title \<open>R\<close> and version 4 (not 5), and the local pending mutation is still in the
  queue.
\<close>

theorem C5_counterexample:
  "applyRemoteChange LastWriteWins no_ui 3000 change_s2 db_s2
     = \<lparr>console = [], resolver_calls = [], put_calls = [change_s2],
        result = Done (repo_put 3000 change_s2 db_s2)\<rparr>
   \<and> map_option (\<lambda>d. (prop_of d ''title'', version (doc_meta d)))
        (repo_get (repo_put 3000 change_s2 db_s2) ''d2'') = Some (JStr ''R'', 4)
   \<and> pendingMutations (repo_put 3000 change_s2 db_s2) = [(''m1'', mutation_s2)]"
proof -
  have i: "item_id change_s2 = ''d2''"
      "item_meta change_s2
         = Some \<lparr>createdAt = 900, updatedAt = 2000, version = 4, deleted = False\<rparr>"
      "item_props change_s2 = [''title'' \<mapsto> JStr ''R'']"
    by (simp_all add: change_s2_def)
  have "applyRemoteChange LastWriteWins no_ui 3000 change_s2 db_s2
     = \<lparr>console = [], resolver_calls = [], put_calls = [change_s2],
        result = Done (repo_put 3000 change_s2 db_s2)\<rparr>"
  proof (rule apply_forward)
    show "repo_get db_s2 (item_id change_s2)
            = Some \<lparr>doc_id = ''d2'', doc_props = [''title'' \<mapsto> JStr ''L''],
                    doc_meta = \<lparr>createdAt = 900, updatedAt = 1000, version = 3,
                                deleted = False\<rparr>\<rparr>"
      by (simp add: i(1) get_db_s2)
    show "item_meta change_s2
            = Some \<lparr>createdAt = 900, updatedAt = 2000, version = 4, deleted = False\<rparr>"
      by (rule i(2))
  qed simp
  moreover have "map_option (\<lambda>d. (prop_of d ''title'', version (doc_meta d)))
        (repo_get (repo_put 3000 change_s2 db_s2) ''d2'') = Some (JStr ''R'', 4)"
    by (simp add: repo_get_put i get_db_s2 stamp_def prop_of_def)
  moreover have "pendingMutations (repo_put 3000 change_s2 db_s2) = [(''m1'', mutation_s2)]"
    by (simp add: pending_put db_s2_def)
  ultimately show ?thesis by simp
qed

text \<open>
  C5, amended. With a local record and an incoming change that carries \<open>_meta\<close>, a
  conflict is declared exactly when the local version is not the incoming version
  minus one. Without a conflict the resolver is not called and the one call to
  \<open>put\<close> writes the incoming change. With a conflict, under last-write-wins and
  first-write-wins, and under manual once the handler has resolved, the resolver is
  called once, on the local record and the change, and the one call to \<open>put\<close>
  writes its output. An object written under the record's id (as every last-write-wins
  and first-write-wins output is) is stored with its properties, version = local
  version + 1, \<open>updatedAt = now\<close> and the creation time kept; every other record is
  as it was, and \<open>put\<close> never touches \<open>pendingMutations\<close>.
\<close>

theorem C5_conflict_output_written_through_put:
  assumes l: "repo_get db (item_id c) = Some l"
    and cm: "item_meta c = Some cm"
  shows "(version (doc_meta l) = version cm - 1 \<longrightarrow>
            applyRemoteChange strat ui now c db
              = \<lparr>console = [], resolver_calls = [], put_calls = [c],
                 result = Done (repo_put now c db)\<rparr>)
       \<and> (version (doc_meta l) \<noteq> version cm - 1 \<longrightarrow>
            (strat = LastWriteWins \<longrightarrow>
               applyRemoteChange strat ui now c db
                 = \<lparr>console = [conflict_warning (item_id c)],
                    resolver_calls = [(l, item_doc c cm)],
                    put_calls = [doc_item (lastWriteWins l (item_doc c cm))],
                    result = Done (repo_put now (doc_item (lastWriteWins l (item_doc c cm))) db)\<rparr>)
          \<and> (strat = FirstWriteWins \<longrightarrow>
               applyRemoteChange strat ui now c db
                 = \<lparr>console = [conflict_warning (item_id c)],
                    resolver_calls = [(l, item_doc c cm)],
                    put_calls = [doc_item (firstWriteWins l (item_doc c cm))],
                    result = Done (repo_put now (doc_item (firstWriteWins l (item_doc c cm))) db)\<rparr>)
          \<and> (strat = Manual \<longrightarrow>
               (\<forall>w. ui l (item_doc c cm) = Some w \<longrightarrow>
                  applyRemoteChange strat ui now c db
                    = \<lparr>console = [conflict_warning (item_id c)],
                       resolver_calls = [(l, item_doc c cm)],
                       put_calls = [doc_item w],
                       result = Done (repo_put now (doc_item w) db)\<rparr>)))
       \<and> item_id (doc_item (lastWriteWins l (item_doc c cm))) = item_id c
       \<and> item_id (doc_item (firstWriteWins l (item_doc c cm))) = item_id c
       \<and> (\<forall>w. item_id w = item_id c \<longrightarrow>
            (\<forall>j. repo_get (repo_put now w db) j
                   = (if j = item_id c
                      then Some \<lparr>doc_id = item_id c, doc_props = item_props w,
                                 doc_meta = \<lparr>createdAt = num_or (createdAt (doc_meta l)) now,
                                             updatedAt = now,
                                             version = version (doc_meta l) + 1,
                                             deleted = False\<rparr>\<rparr>
                      else repo_get db j)))
       \<and> (\<forall>w. pendingMutations (repo_put now w db) = pendingMutations db)"
proof (intro conjI impI allI)
  assume "version (doc_meta l) = version cm - 1"
  then show "applyRemoteChange strat ui now c db
              = \<lparr>console = [], resolver_calls = [], put_calls = [c],
                 result = Done (repo_put now c db)\<rparr>"
    by (rule apply_forward[OF l cm])
next
  assume v: "version (doc_meta l) \<noteq> version cm - 1" and s: "strat = LastWriteWins"
  have "resolve strat ui now l (item_doc c cm) = Some (lastWriteWins l (item_doc c cm))"
    by (simp add: s resolve_def)
  from apply_conflict[OF l cm v this]
  show "applyRemoteChange strat ui now c db
          = \<lparr>console = [conflict_warning (item_id c)],
             resolver_calls = [(l, item_doc c cm)],
             put_calls = [doc_item (lastWriteWins l (item_doc c cm))],
             result = Done (repo_put now (doc_item (lastWriteWins l (item_doc c cm))) db)\<rparr>" .
next
  assume v: "version (doc_meta l) \<noteq> version cm - 1" and s: "strat = FirstWriteWins"
  have "resolve strat ui now l (item_doc c cm) = Some (firstWriteWins l (item_doc c cm))"
    by (simp add: s resolve_def)
  from apply_conflict[OF l cm v this]
  show "applyRemoteChange strat ui now c db
          = \<lparr>console = [conflict_warning (item_id c)],
             resolver_calls = [(l, item_doc c cm)],
             put_calls = [doc_item (firstWriteWins l (item_doc c cm))],
             result = Done (repo_put now (doc_item (firstWriteWins l (item_doc c cm))) db)\<rparr>" .
next
  fix w
  assume v: "version (doc_meta l) \<noteq> version cm - 1" and s: "strat = Manual"
    and w: "ui l (item_doc c cm) = Some w"
  have "resolve strat ui now l (item_doc c cm) = Some w"
    by (simp add: s resolve_def w)
  from apply_conflict[OF l cm v this]
  show "applyRemoteChange strat ui now c db
          = \<lparr>console = [conflict_warning (item_id c)],
             resolver_calls = [(l, item_doc c cm)],
             put_calls = [doc_item w],
             result = Done (repo_put now (doc_item w) db)\<rparr>" .
next
  show "item_id (doc_item (lastWriteWins l (item_doc c cm))) = item_id c"
    by (rule lww_id[OF get_doc_id[OF l]])
  show "item_id (doc_item (firstWriteWins l (item_doc c cm))) = item_id c"
    by (rule fww_id[OF get_doc_id[OF l]])
next
  fix w :: item and j
  assume "item_id w = item_id c"
  from put_over_local[OF l this]
  show "repo_get (repo_put now w db) j
          = (if j = item_id c
             then Some \<lparr>doc_id = item_id c, doc_props = item_props w,
                        doc_meta = \<lparr>createdAt = num_or (createdAt (doc_meta l)) now,
                                    updatedAt = now,
                                    version = version (doc_meta l) + 1,
                                    deleted = False\<rparr>\<rparr>
             else repo_get db j)" .
next
  fix w :: item
  show "pendingMutations (repo_put now w db) = pendingMutations db"
    by (rule pending_put)
qed

theorem C5_conflict_output_written_through_put_witness:
  "repo_get db_s2 (item_id change_s2)
     = Some \<lparr>doc_id = ''d2'', doc_props = [''title'' \<mapsto> JStr ''L''],
             doc_meta = \<lparr>createdAt = 900, updatedAt = 1000, version = 3, deleted = False\<rparr>\<rparr>
   \<and> item_meta change_s2
       = Some \<lparr>createdAt = 900, updatedAt = 2000, version = 4, deleted = False\<rparr>
   \<and> applyRemoteChange LastWriteWins no_ui 3000 change_s2 db_s2
       = \<lparr>console = [], resolver_calls = [], put_calls = [change_s2],
          result = Done (repo_put 3000 change_s2 db_s2)\<rparr>
   \<and> repo_get db_twice (item_id change_twice)
       = Some \<lparr>doc_id = ''d1'', doc_props = [''title'' \<mapsto> JStr ''L''],
               doc_meta = \<lparr>createdAt = 500, updatedAt = 3000, version = 2, deleted = False\<rparr>\<rparr>
   \<and> item_meta change_twice
       = Some \<lparr>createdAt = 400, updatedAt = 2000, version = 4, deleted = False\<rparr>
   \<and> applyRemoteChange LastWriteWins no_ui 5000 change_twice db_twice
       = \<lparr>console = [conflict_warning ''d1''],
          resolver_calls =
            [(\<lparr>doc_id = ''d1'', doc_props = [''title'' \<mapsto> JStr ''L''],
               doc_meta = \<lparr>createdAt = 500, updatedAt = 3000, version = 2, deleted = False\<rparr>\<rparr>,
              \<lparr>doc_id = ''d1'', doc_props = [''title'' \<mapsto> JStr ''R''],
               doc_meta = \<lparr>createdAt = 400, updatedAt = 2000, version = 4, deleted = False\<rparr>\<rparr>)],
          put_calls =
            [\<lparr>item_id = ''d1'', item_props = [''title'' \<mapsto> JStr ''L''],
              item_meta = Some \<lparr>createdAt = 500, updatedAt = 3000, version = 2,
                                deleted = False\<rparr>\<rparr>],
          result = Done db_once_applied\<rparr>
   \<and> applyRemoteChange FirstWriteWins no_ui 5000 change_twice db_twice
       = \<lparr>console = [conflict_warning ''d1''],
          resolver_calls =
            [(\<lparr>doc_id = ''d1'', doc_props = [''title'' \<mapsto> JStr ''L''],
               doc_meta = \<lparr>createdAt = 500, updatedAt = 3000, version = 2, deleted = False\<rparr>\<rparr>,
              \<lparr>doc_id = ''d1'', doc_props = [''title'' \<mapsto> JStr ''R''],
               doc_meta = \<lparr>createdAt = 400, updatedAt = 2000, version = 4, deleted = False\<rparr>\<rparr>)],
          put_calls = [change_twice],
          result = Done (repo_put 5000 change_twice db_twice)\<rparr>
   \<and> result (applyRemoteChange Manual (\<lambda>local remote. Some local) 5000 change_twice db_twice)
       = Done db_once_applied
   \<and> map_option (\<lambda>d. (prop_of d ''title'', version (doc_meta d), updatedAt (doc_meta d)))
        (repo_get (repo_put 5000 change_twice db_twice) ''d1'') = Some (JStr ''R'', 3, 5000)
   \<and> map_option (\<lambda>d. (prop_of d ''title'', version (doc_meta d), updatedAt (doc_meta d)))
        (repo_get db_once_applied ''d1'') = Some (JStr ''L'', 3, 5000)"
proof -
  let ?l2 = "\<lparr>doc_id = ''d2'', doc_props = [''title'' \<mapsto> JStr ''L''],
              doc_meta = \<lparr>createdAt = 900, updatedAt = 1000, version = 3, deleted = False\<rparr>\<rparr>"
  let ?cm2 = "\<lparr>createdAt = 900, updatedAt = 2000, version = 4, deleted = False\<rparr>"
  let ?l = "\<lparr>doc_id = ''d1'', doc_props = [''title'' \<mapsto> JStr ''L''],
             doc_meta = \<lparr>createdAt = 500, updatedAt = 3000, version = 2, deleted = False\<rparr>\<rparr>"
  let ?cm = "\<lparr>createdAt = 400, updatedAt = 2000, version = 4, deleted = False\<rparr>"
  have i2: "item_id change_s2 = ''d2''" and i: "item_id change_twice = ''d1''"
    by (simp_all add: change_s2_def change_twice_def)
  have l2: "repo_get db_s2 (item_id change_s2) = Some ?l2"
    by (simp add: i2 get_db_s2)
  have cm2: "item_meta change_s2 = Some ?cm2"
    by (simp add: change_s2_def)
  have l: "repo_get db_twice (item_id change_twice) = Some ?l"
    by (simp add: i get_db_twice)
  have cm: "item_meta change_twice = Some ?cm"
    by (simp add: change_twice_def)
  let ?r = "\<lparr>doc_id = ''d1'', doc_props = [''title'' \<mapsto> JStr ''R''],
             doc_meta = \<lparr>createdAt = 400, updatedAt = 2000, version = 4, deleted = False\<rparr>\<rparr>"
  have lww: "doc_item (lastWriteWins ?l ?r)
               = \<lparr>item_id = ''d1'', item_props = [''title'' \<mapsto> JStr ''L''],
                  item_meta = Some \<lparr>createdAt = 500, updatedAt = 3000, version = 2,
                                    deleted = False\<rparr>\<rparr>"
    by (simp add: lastWriteWins_def doc_item_def)
  have fww: "doc_item (firstWriteWins ?l ?r) = change_twice"
    by (simp add: firstWriteWins_def doc_item_def change_twice_def)
  have dl: "doc_item ?l
               = \<lparr>item_id = ''d1'', item_props = [''title'' \<mapsto> JStr ''L''],
                  item_meta = Some \<lparr>createdAt = 500, updatedAt = 3000, version = 2,
                                    deleted = False\<rparr>\<rparr>"
    by (simp add: doc_item_def)
  have once: "repo_put 5000 \<lparr>item_id = ''d1'', item_props = [''title'' \<mapsto> JStr ''L''],
                  item_meta = Some \<lparr>createdAt = 500, updatedAt = 3000, version = 2,
                                    deleted = False\<rparr>\<rparr> db_twice = db_once_applied"
    by (simp add: repo_put_def repo_get_def db_twice_def db_once_applied_def doc_of_def num_or_def)
  have rc: "item_doc change_twice ?cm = ?r"
    by (simp add: item_doc_def change_twice_def)
  note s2 = C5_conflict_output_written_through_put
              [OF l2 cm2, where strat = LastWriteWins and ui = no_ui and now = 3000]
  note t = C5_conflict_output_written_through_put[OF l cm, where now = 5000]
  from s2 have a: "applyRemoteChange LastWriteWins no_ui 3000 change_s2 db_s2
       = \<lparr>console = [], resolver_calls = [], put_calls = [change_s2],
          result = Done (repo_put 3000 change_s2 db_s2)\<rparr>"
    by simp
  from t[where strat = LastWriteWins and ui = no_ui]
  have b: "applyRemoteChange LastWriteWins no_ui 5000 change_twice db_twice
       = \<lparr>console = [conflict_warning ''d1''],
          resolver_calls = [(?l, item_doc change_twice ?cm)],
          put_calls = [doc_item (lastWriteWins ?l (item_doc change_twice ?cm))],
          result = Done (repo_put 5000 (doc_item (lastWriteWins ?l (item_doc change_twice ?cm)))
                           db_twice)\<rparr>"
    by (simp add: i)
  from t[where strat = FirstWriteWins and ui = no_ui]
  have c: "applyRemoteChange FirstWriteWins no_ui 5000 change_twice db_twice
       = \<lparr>console = [conflict_warning ''d1''],
          resolver_calls = [(?l, item_doc change_twice ?cm)],
          put_calls = [doc_item (firstWriteWins ?l (item_doc change_twice ?cm))],
          result = Done (repo_put 5000 (doc_item (firstWriteWins ?l (item_doc change_twice ?cm)))
                           db_twice)\<rparr>"
    by (simp add: i)
  from t[where strat = Manual and ui = "\<lambda>local remote. Some local"]
  have d: "applyRemoteChange Manual (\<lambda>local remote. Some local) 5000 change_twice db_twice
       = \<lparr>console = [conflict_warning ''d1''],
          resolver_calls = [(?l, item_doc change_twice ?cm)],
          put_calls = [doc_item ?l],
          result = Done (repo_put 5000 (doc_item ?l) db_twice)\<rparr>"
    by (simp add: i)
  from t[where strat = FirstWriteWins and ui = no_ui]
  have e: "repo_get (repo_put 5000 change_twice db_twice) ''d1''
             = Some \<lparr>doc_id = ''d1'', doc_props = item_props change_twice,
                     doc_meta = \<lparr>createdAt = num_or 500 5000, updatedAt = 5000,
                                 version = 3, deleted = False\<rparr>\<rparr>"
    by (simp add: i)
  have f: "map_option (\<lambda>d. (prop_of d ''title'', version (doc_meta d), updatedAt (doc_meta d)))
        (repo_get (repo_put 5000 change_twice db_twice) ''d1'') = Some (JStr ''R'', 3, 5000)"
    unfolding e by (simp add: prop_of_def change_twice_def)
  have g: "map_option (\<lambda>d. (prop_of d ''title'', version (doc_meta d), updatedAt (doc_meta d)))
        (repo_get db_once_applied ''d1'') = Some (JStr ''L'', 3, 5000)"
    by (simp add: get_db_once_applied prop_of_def)
  show ?thesis
    unfolding a b c d rc lww fww dl once
    using l2 cm2 l cm f g by simp
qed

text \<open>
  C6. The resolver is to be invoked exactly on concurrent sides. In the sync engine
  the resolver is called exactly when a local record exists, the change carries
  \<open>_meta\<close> and the local version is not the incoming version minus one, and then
  once, on the local record and the change; with no local record the change is
  written through \<open>put\<close> (at version 1, every other record as it was) and the
  resolver is not called. In the reconciliation service each operation of a request is
  compared with the operations stored under its key, and a conflict, with the
  resolver's last-write-wins output attached, is reported exactly when \<open>areConcurrent\<close>
  holds of the operation and one of them. \<open>areConcurrent\<close> is the data model's
  incomparability (missing keys read as 0) for clocks whose keys avoid the names
  \<open>Object.prototype\<close> defines. It is not for the clocks \<open>{toString: 1}\<close> and
  \<open>{b: 1}\<close>: they are incomparable, yet \<open>clock[key] || 0\<close> reads the inherited
  \<open>toString\<close> for the second clock, no comparison with it holds, and
  \<open>areConcurrent\<close> is false, so no conflict is detected and the resolver is not
  called.
\<close>

theorem C6_resolver_invoked_iff_concurrent:
  "(plain_keys clock1 clock2 \<longrightarrow> areConcurrent clock1 clock2 = vc_concurrent clock1 clock2)
   \<and> vc_concurrent clock_toString clock_b
   \<and> \<not> areConcurrent clock_toString clock_b
   \<and> reconcile_step request now op (conflicts, resolvedOperations, svc) =
       (let existing = svc (operations_key (rq_tenantId request) (op_entityType op) (op_entityId op));
            concurrent = filter (\<lambda>e. areConcurrent (vectorClock op) (vectorClock e)) existing;
            latest = fold (\<lambda>x latest. if op_timestamp x > op_timestamp latest then x else latest)
                       concurrent op;
            conflict = \<lparr>conflictId = ''conflict-'' @ decimal (nat now),
                        c_entityType = op_entityType op, c_entityId = op_entityId op,
                        c_operations = op # concurrent, detectedAt = now,
                        resolution = Some \<lparr>res_strategy = LAST_WRITE_WINS, resolvedAt = now,
                                           res_result = op_payload latest\<rparr>\<rparr>
        in if concurrent = []
           then Some (conflicts, resolvedOperations @ [op], submitOperation op svc)
           else Some (conflicts @ [conflict],
                      resolvedOperations @ [op\<lparr>op_payload := op_payload latest\<rparr>],
                      submitOperation op svc))
   \<and> (rq_operations request = [op] \<longrightarrow>
        reconcile request now svc =
          (let existing = svc (operations_key (rq_tenantId request) (op_entityType op) (op_entityId op));
               concurrent = filter (\<lambda>e. areConcurrent (vectorClock op) (vectorClock e)) existing;
               latest = fold (\<lambda>x latest. if op_timestamp x > op_timestamp latest then x else latest)
                          concurrent op;
               conflict = \<lparr>conflictId = ''conflict-'' @ decimal (nat now),
                           c_entityType = op_entityType op, c_entityId = op_entityId op,
                           c_operations = op # concurrent, detectedAt = now,
                           resolution = Some \<lparr>res_strategy = LAST_WRITE_WINS, resolvedAt = now,
                                              res_result = op_payload latest\<rparr>\<rparr>
           in Done (\<lparr>rs_requestId = requestId request,
                      rs_conflicts = (if concurrent = [] then [] else [conflict]),
                      rs_resolvedOperations =
                        [if concurrent = [] then op else op\<lparr>op_payload := op_payload latest\<rparr>],
                      currentVersion = ''v-'' @ decimal (nat now), completedAt = now\<rparr>,
                    submitOperation op svc)))
   \<and> resolver_calls (applyRemoteChange strat ui now c db)
       = (case repo_get db (item_id c) of
            None \<Rightarrow> []
          | Some l \<Rightarrow>
              (case item_meta c of
                 None \<Rightarrow> []
               | Some cm \<Rightarrow>
                   if version (doc_meta l) \<noteq> version cm - 1 then [(l, item_doc c cm)] else []))
   \<and> (repo_get db (item_id c) = None \<longrightarrow>
        applyRemoteChange strat ui now c db
          = \<lparr>console = [], resolver_calls = [], put_calls = [c],
             result = Done (repo_put now c db)\<rparr>
        \<and> (\<forall>j. repo_get (repo_put now c db) j
                = (if j = item_id c
                   then Some \<lparr>doc_id = item_id c, doc_props = item_props c,
                              doc_meta = \<lparr>createdAt = now, updatedAt = now, version = 1,
                                          deleted = False\<rparr>\<rparr>
                   else repo_get db j)))"
proof (intro conjI impI allI)
  assume "plain_keys clock1 clock2"
  then show "areConcurrent clock1 clock2 = vc_concurrent clock1 clock2"
    by (rule areConcurrent_plain)
next
  show "vc_concurrent clock_toString clock_b"
    by (rule vc_concurrent_toString_b)
  show "\<not> areConcurrent clock_toString clock_b"
    by (rule not_areConcurrent_toString_b)
  show "reconcile_step request now op (conflicts, resolvedOperations, svc) =
       (let existing = svc (operations_key (rq_tenantId request) (op_entityType op) (op_entityId op));
            concurrent = filter (\<lambda>e. areConcurrent (vectorClock op) (vectorClock e)) existing;
            latest = fold (\<lambda>x latest. if op_timestamp x > op_timestamp latest then x else latest)
                       concurrent op;
            conflict = \<lparr>conflictId = ''conflict-'' @ decimal (nat now),
                        c_entityType = op_entityType op, c_entityId = op_entityId op,
                        c_operations = op # concurrent, detectedAt = now,
                        resolution = Some \<lparr>res_strategy = LAST_WRITE_WINS, resolvedAt = now,
                                           res_result = op_payload latest\<rparr>\<rparr>
        in if concurrent = []
           then Some (conflicts, resolvedOperations @ [op], submitOperation op svc)
           else Some (conflicts @ [conflict],
                      resolvedOperations @ [op\<lparr>op_payload := op_payload latest\<rparr>],
                      submitOperation op svc))"
    by (rule reconcile_step_let)
  show "resolver_calls (applyRemoteChange strat ui now c db)
       = (case repo_get db (item_id c) of
            None \<Rightarrow> []
          | Some l \<Rightarrow>
              (case item_meta c of
                 None \<Rightarrow> []
               | Some cm \<Rightarrow>
                   if version (doc_meta l) \<noteq> version cm - 1 then [(l, item_doc c cm)] else []))"
    by (rule resolver_calls_exact)
next
  assume "rq_operations request = [op]"
  then show "reconcile request now svc =
          (let existing = svc (operations_key (rq_tenantId request) (op_entityType op) (op_entityId op));
               concurrent = filter (\<lambda>e. areConcurrent (vectorClock op) (vectorClock e)) existing;
               latest = fold (\<lambda>x latest. if op_timestamp x > op_timestamp latest then x else latest)
                          concurrent op;
               conflict = \<lparr>conflictId = ''conflict-'' @ decimal (nat now),
                           c_entityType = op_entityType op, c_entityId = op_entityId op,
                           c_operations = op # concurrent, detectedAt = now,
                           resolution = Some \<lparr>res_strategy = LAST_WRITE_WINS, resolvedAt = now,
                                              res_result = op_payload latest\<rparr>\<rparr>
           in Done (\<lparr>rs_requestId = requestId request,
                      rs_conflicts = (if concurrent = [] then [] else [conflict]),
                      rs_resolvedOperations =
                        [if concurrent = [] then op else op\<lparr>op_payload := op_payload latest\<rparr>],
                      currentVersion = ''v-'' @ decimal (nat now), completedAt = now\<rparr>,
                    submitOperation op svc))"
    by (rule reconcile_single)
next
  assume "repo_get db (item_id c) = None"
  then show "applyRemoteChange strat ui now c db
          = \<lparr>console = [], resolver_calls = [], put_calls = [c],
             result = Done (repo_put now c db)\<rparr>"
    by (rule apply_absent)
next
  fix j
  assume "repo_get db (item_id c) = None"
  then show "repo_get (repo_put now c db) j
                = (if j = item_id c
                   then Some \<lparr>doc_id = item_id c, doc_props = item_props c,
                              doc_meta = \<lparr>createdAt = now, updatedAt = now, version = 1,
                                          deleted = False\<rparr>\<rparr>
                   else repo_get db j)"
    by (simp add: repo_get_put stamp_def)
qed

theorem C6_resolver_invoked_iff_concurrent_witness:
  "plain_keys clock_client1 clock_client2
   \<and> areConcurrent clock_client1 clock_client2
   \<and> vc_concurrent clock_client1 clock_client2
   \<and> rq_operations (request_of op_cancelled) = [op_cancelled]
   \<and> reconcile (request_of op_cancelled) 2000 (submitOperation op_shipped no_operations)
       = Done (\<lparr>rs_requestId = ''req-001'',
                 rs_conflicts =
                   [\<lparr>conflictId = ''conflict-2000'', c_entityType = ''order'',
                     c_entityId = ''order-001'', c_operations = [op_cancelled, op_shipped],
                     detectedAt = 2000,
                     resolution = Some \<lparr>res_strategy = LAST_WRITE_WINS, resolvedAt = 2000,
                                        res_result = [''status'' \<mapsto> JStr ''cancelled'']\<rparr>\<rparr>],
                 rs_resolvedOperations = [op_cancelled],
                 currentVersion = ''v-2000'', completedAt = 2000\<rparr>,
               submitOperation op_cancelled (submitOperation op_shipped no_operations))
   \<and> vc_concurrent (vectorClock (op_cancelled\<lparr>vectorClock := clock_toString\<rparr>))
        (vectorClock (op_shipped\<lparr>vectorClock := clock_b\<rparr>))
   \<and> map_option (\<lambda>(response, svc). rs_conflicts response)
        (case reconcile (request_of (op_cancelled\<lparr>vectorClock := clock_toString\<rparr>)) 2000
                (submitOperation (op_shipped\<lparr>vectorClock := clock_b\<rparr>) no_operations) of
           Done r \<Rightarrow> Some r | _ \<Rightarrow> None) = Some []
   \<and> resolver_calls (applyRemoteChange LastWriteWins no_ui 5000 change_twice db_twice)
       = [(\<lparr>doc_id = ''d1'', doc_props = [''title'' \<mapsto> JStr ''L''],
            doc_meta = \<lparr>createdAt = 500, updatedAt = 3000, version = 2, deleted = False\<rparr>\<rparr>,
           \<lparr>doc_id = ''d1'', doc_props = [''title'' \<mapsto> JStr ''R''],
            doc_meta = \<lparr>createdAt = 400, updatedAt = 2000, version = 4, deleted = False\<rparr>\<rparr>)]
   \<and> resolver_calls (applyRemoteChange LastWriteWins no_ui 3000 change_s2 db_s2) = []
   \<and> repo_get empty_db (item_id change_s2) = None
   \<and> applyRemoteChange LastWriteWins no_ui 3000 change_s2 empty_db
        = \<lparr>console = [], resolver_calls = [], put_calls = [change_s2],
           result = Done (repo_put 3000 change_s2 empty_db)\<rparr>
   \<and> repo_get (repo_put 3000 change_s2 empty_db) ''d2''
        = Some \<lparr>doc_id = ''d2'', doc_props = [''title'' \<mapsto> JStr ''R''],
                doc_meta = \<lparr>createdAt = 3000, updatedAt = 3000, version = 1,
                            deleted = False\<rparr>\<rparr>"
proof -
  have p: "plain_keys clock_client1 clock_client2"
    by (simp add: plain_keys_def clock_client1_def clock_client2_def
          object_prototype_members_def)
  have c: "areConcurrent clock_client1 clock_client2"
    by (simp add: areConcurrent_def allKeys_def new_Set_def set_add_def concurrent_step_def
          clock_at_def num_or_def object_prototype_members_def
          clock_client1_def clock_client2_def)
  have c': "areConcurrent clock_client2 clock_client1"
    by (simp add: areConcurrent_def allKeys_def new_Set_def set_add_def concurrent_step_def
          clock_at_def num_or_def object_prototype_members_def
          clock_client1_def clock_client2_def)
  from C6_resolver_invoked_iff_concurrent[where ?clock1.0 = clock_client1 and ?clock2.0 = clock_client2]
  have v: "vc_concurrent clock_client1 clock_client2"
    using p c by blast
  have rq: "rq_operations (request_of op) = [op]" for op
    by (simp add: request_of_def)
  have key: "operations_key (rq_tenantId (request_of op_cancelled)) (op_entityType op_cancelled)
               (op_entityId op_cancelled)
             = operations_key (op_tenantId op_shipped) (op_entityType op_shipped)
                 (op_entityId op_shipped)"
    by (simp add: request_of_def op_cancelled_def op_shipped_def)
  have existing: "submitOperation op_shipped no_operations
                    (operations_key (rq_tenantId (request_of op_cancelled))
                       (op_entityType op_cancelled) (op_entityId op_cancelled)) = [op_shipped]"
    unfolding key by (simp add: submitOperation_def no_operations_def)
  have vcs: "vectorClock op_cancelled = clock_client2" "vectorClock op_shipped = clock_client1"
    by (simp_all add: op_cancelled_def op_shipped_def)
  have fields: "op_entityType op_cancelled = ''order''" "op_entityId op_cancelled = ''order-001''"
      "op_payload op_cancelled = [''status'' \<mapsto> JStr ''cancelled'']"
      "op_timestamp op_cancelled = 1100" "op_timestamp op_shipped = 1000"
      "requestId (request_of op_cancelled) = ''req-001''"
    by (simp_all add: op_cancelled_def op_shipped_def request_of_def)
  have same: "op_cancelled\<lparr>op_payload := [''status'' \<mapsto> JStr ''cancelled'']\<rparr> = op_cancelled"
    by (simp add: op_cancelled_def)
  from C6_resolver_invoked_iff_concurrent
         [where request = "request_of op_cancelled" and op = op_cancelled and now = 2000
            and svc = "submitOperation op_shipped no_operations"]
  have "reconcile (request_of op_cancelled) 2000 (submitOperation op_shipped no_operations)
          = (let existing = submitOperation op_shipped no_operations
                   (operations_key (rq_tenantId (request_of op_cancelled))
                      (op_entityType op_cancelled) (op_entityId op_cancelled));
               concurrent = filter (\<lambda>e. areConcurrent (vectorClock op_cancelled) (vectorClock e)) existing;
               latest = fold (\<lambda>x latest. if op_timestamp x > op_timestamp latest then x else latest)
                          concurrent op_cancelled;
               conflict = \<lparr>conflictId = ''conflict-'' @ decimal (nat 2000),
                           c_entityType = op_entityType op_cancelled, c_entityId = op_entityId op_cancelled,
                           c_operations = op_cancelled # concurrent, detectedAt = 2000,
                           resolution = Some \<lparr>res_strategy = LAST_WRITE_WINS, resolvedAt = 2000,
                                              res_result = op_payload latest\<rparr>\<rparr>
           in Done (\<lparr>rs_requestId = requestId (request_of op_cancelled),
                      rs_conflicts = (if concurrent = [] then [] else [conflict]),
                      rs_resolvedOperations =
                        [if concurrent = [] then op_cancelled else op_cancelled\<lparr>op_payload := op_payload latest\<rparr>],
                      currentVersion = ''v-'' @ decimal (nat 2000), completedAt = 2000\<rparr>,
                    submitOperation op_cancelled (submitOperation op_shipped no_operations)))"
    using rq by blast
  then have r1: "reconcile (request_of op_cancelled) 2000 (submitOperation op_shipped no_operations)
       = Done (\<lparr>rs_requestId = ''req-001'',
                 rs_conflicts =
                   [\<lparr>conflictId = ''conflict-2000'', c_entityType = ''order'',
                     c_entityId = ''order-001'', c_operations = [op_cancelled, op_shipped],
                     detectedAt = 2000,
                     resolution = Some \<lparr>res_strategy = LAST_WRITE_WINS, resolvedAt = 2000,
                                        res_result = [''status'' \<mapsto> JStr ''cancelled'']\<rparr>\<rparr>],
                 rs_resolvedOperations = [op_cancelled],
                 currentVersion = ''v-2000'', completedAt = 2000\<rparr>,
               submitOperation op_cancelled (submitOperation op_shipped no_operations))"
    unfolding existing
    by (simp add: vcs c' fields same decimal_2000)
  let ?opA = "op_cancelled\<lparr>vectorClock := clock_toString\<rparr>"
  let ?opB = "op_shipped\<lparr>vectorClock := clock_b\<rparr>"
  have existing2: "submitOperation ?opB no_operations
                    (operations_key (rq_tenantId (request_of ?opA))
                       (op_entityType ?opA) (op_entityId ?opA)) = [?opB]"
    by (simp add: submitOperation_def no_operations_def request_of_def op_cancelled_def
          op_shipped_def)
  note t2 = C6_resolver_invoked_iff_concurrent
         [where request = "request_of ?opA" and op = ?opA and now = 2000
            and svc = "submitOperation ?opB no_operations"]
  from t2 have nc: "\<not> areConcurrent clock_toString clock_b" and vc: "vc_concurrent clock_toString clock_b"
    by blast+
  from t2 have "reconcile (request_of ?opA) 2000 (submitOperation ?opB no_operations)
          = (let existing = submitOperation ?opB no_operations
                   (operations_key (rq_tenantId (request_of ?opA))
                      (op_entityType ?opA) (op_entityId ?opA));
               concurrent = filter (\<lambda>e. areConcurrent (vectorClock ?opA) (vectorClock e)) existing;
               latest = fold (\<lambda>x latest. if op_timestamp x > op_timestamp latest then x else latest)
                          concurrent ?opA;
               conflict = \<lparr>conflictId = ''conflict-'' @ decimal (nat 2000),
                           c_entityType = op_entityType ?opA, c_entityId = op_entityId ?opA,
                           c_operations = ?opA # concurrent, detectedAt = 2000,
                           resolution = Some \<lparr>res_strategy = LAST_WRITE_WINS, resolvedAt = 2000,
                                              res_result = op_payload latest\<rparr>\<rparr>
           in Done (\<lparr>rs_requestId = requestId (request_of ?opA),
                      rs_conflicts = (if concurrent = [] then [] else [conflict]),
                      rs_resolvedOperations =
                        [if concurrent = [] then ?opA else ?opA\<lparr>op_payload := op_payload latest\<rparr>],
                      currentVersion = ''v-'' @ decimal (nat 2000), completedAt = 2000\<rparr>,
                    submitOperation ?opA (submitOperation ?opB no_operations)))"
    using rq by blast
  then have r2: "map_option (\<lambda>(response, svc). rs_conflicts response)
        (case reconcile (request_of ?opA) 2000 (submitOperation ?opB no_operations) of
           Done r \<Rightarrow> Some r | _ \<Rightarrow> None) = Some []"
    unfolding existing2 by (simp add: nc)
  have vc2: "vc_concurrent (vectorClock ?opA) (vectorClock ?opB)"
    using vc by simp
  note t3 = C6_resolver_invoked_iff_concurrent
         [where strat = LastWriteWins and ui = no_ui and now = 5000 and c = change_twice
            and db = db_twice]
  have i: "item_id change_twice = ''d1''" "item_id change_s2 = ''d2''"
    by (simp_all add: change_twice_def change_s2_def)
  from t3 have s1: "resolver_calls (applyRemoteChange LastWriteWins no_ui 5000 change_twice db_twice)
       = [(\<lparr>doc_id = ''d1'', doc_props = [''title'' \<mapsto> JStr ''L''],
            doc_meta = \<lparr>createdAt = 500, updatedAt = 3000, version = 2, deleted = False\<rparr>\<rparr>,
           \<lparr>doc_id = ''d1'', doc_props = [''title'' \<mapsto> JStr ''R''],
            doc_meta = \<lparr>createdAt = 400, updatedAt = 2000, version = 4, deleted = False\<rparr>\<rparr>)]"
    by (simp add: i get_db_twice) (simp add: change_twice_def item_doc_def)
  note t4 = C6_resolver_invoked_iff_concurrent
         [where strat = LastWriteWins and ui = no_ui and now = 3000 and c = change_s2
            and db = db_s2]
  from t4 have s2: "resolver_calls (applyRemoteChange LastWriteWins no_ui 3000 change_s2 db_s2) = []"
    by (simp add: i get_db_s2) (simp add: change_s2_def)
  have a: "repo_get empty_db (item_id change_s2) = None"
    by (simp add: repo_get_def empty_db_def)
  note t5 = C6_resolver_invoked_iff_concurrent
         [where strat = LastWriteWins and ui = no_ui and now = 3000 and c = change_s2
            and db = empty_db]
  from t5 a have s3: "applyRemoteChange LastWriteWins no_ui 3000 change_s2 empty_db
        = \<lparr>console = [], resolver_calls = [], put_calls = [change_s2],
           result = Done (repo_put 3000 change_s2 empty_db)\<rparr>"
    by blast
  from t5 a have "\<forall>j. repo_get (repo_put 3000 change_s2 empty_db) j
                = (if j = item_id change_s2
                   then Some \<lparr>doc_id = item_id change_s2, doc_props = item_props change_s2,
                              doc_meta = \<lparr>createdAt = 3000, updatedAt = 3000, version = 1,
                                          deleted = False\<rparr>\<rparr>
                   else repo_get empty_db j)"
    by blast
  then have s4: "repo_get (repo_put 3000 change_s2 empty_db) ''d2''
        = Some \<lparr>doc_id = ''d2'', doc_props = [''title'' \<mapsto> JStr ''R''],
                doc_meta = \<lparr>createdAt = 3000, updatedAt = 3000, version = 1,
                            deleted = False\<rparr>\<rparr>"
    by (simp add: i) (simp add: change_s2_def)
  show ?thesis
    using p c v rq[of op_cancelled] r1 vc2 r2 s1 s2 a s3 s4 by blast
qed



text \<open>
  C8. A Class D message sent through the realtime channel is to be refused with an
  error. \<open>validateMessage\<close> copies \<open>data.interactionClass\<close> into the message
  without looking at it, so a Class D message for a room, from an authenticated
  connection, is published on the room's channel and acknowledged, and no error is
  logged.
\<close>

theorem C8_class_d_is_transmitted:
  "published (handleMessage 100 sock_u1 class_d_data ''uuid-1'' 1000 idle)
     = [(''room:t1:r1'',
         \<lparr>messageId = ''uuid-1'', msg_type = ''payment.process'', interactionClass = CLASS_D,
          tenantId = ''t1'', senderId = ''u1'', recipientId = None, roomId = Some ''r1'',
          payload = JObj ''text'', timestamp = 1000, metadata = JUndefined\<rparr>)]
   \<and> emitted (handleMessage 100 sock_u1 class_d_data ''uuid-1'' 1000 idle)
       = [(''s1'', EvMessageAck ''uuid-1'')]
   \<and> logger (handleMessage 100 sock_u1 class_d_data ''uuid-1'' 1000 idle) = []"
proof -
  have "handleMessage 100 sock_u1 class_d_data ''uuid-1'' 1000 idle
     = idle\<lparr>rate_limit := (rate_limit idle)
              (''rate_limit:'' @ socket_id sock_u1 := rate_limit idle (''rate_limit:'' @ socket_id sock_u1) + 1),
           published := published idle
             @ [(''room:'' @ sock_tenantId sock_u1 @ '':'' @ ''r1'',
                 \<lparr>messageId = ''uuid-1'', msg_type = ''payment.process'',
                  interactionClass = (case d_interactionClass class_d_data of Some c \<Rightarrow> c | None \<Rightarrow> CLASS_C),
                  tenantId = sock_tenantId sock_u1, senderId = sock_userId sock_u1,
                  recipientId = d_recipientId class_d_data, roomId = Some ''r1'',
                  payload = d_payload class_d_data, timestamp = 1000,
                  metadata = d_metadata class_d_data\<rparr>)],
           emitted := emitted idle @ [(socket_id sock_u1, EvMessageAck ''uuid-1'')]\<rparr>"
    by (rule handle_room_data) (simp_all add: class_d_data_def room_data_def idle_def)
  then show ?thesis
    by (simp add: class_d_data_def room_data_def idle_def sock_u1_def)
qed

theorem C8_class_d_is_transmitted_witness:
  "map (\<lambda>(channel, m). (channel, interactionClass m))
     (published (handleMessage 100 sock_u1 class_d_data ''uuid-1'' 1000 idle))
     = [(''room:t1:r1'', CLASS_D)]"
  using C8_class_d_is_transmitted by simp

text \<open>
  C9, as stated, fails. The monitor starts with \<open>navigator.onLine = true\<close> and no
  window event arrives, so the host still advertises reachability; one failed ping sets
  the effective-online flag to false and emits \<open>offline\<close>. The logical OR of the two
  inputs would be true.
\<close>

theorem C9_counterexample:
  "host_advertised True [PingResult False] = True
   \<and> last_probe None [PingResult False] = Some False
   \<and> isOnline (run_monitor True [PingResult False]) = False
   \<and> nm_emitted (run_monitor True [PingResult False]) = [EvOffline]"
  by (simp add: run_monitor_def new_monitor_def isOnline_def setOnline_def)

text \<open>
  C9, amended. The effective-online boolean is the value of the most recent signal the
  monitor received: \<open>true\<close> or \<open>false\<close> for the window's \<open>online\<close> or
  \<open>offline\<close> event, the ping's outcome for a ping; before any signal it is
  \<open>navigator.onLine\<close>. So a failed ping makes it false even while the host
  advertises reachability.
\<close>

theorem C9_latest_signal_wins:
  "isOnline (run_monitor navigator_onLine []) = navigator_onLine
   \<and> isOnline (run_monitor navigator_onLine (sigs @ [s])) = signal_value s"
  by (simp add: run_monitor_def isOnline_def new_monitor_def online_on_signal)

theorem C9_latest_signal_wins_witness:
  "isOnline (run_monitor True [WindowOnline, PingResult False]) = False
   \<and> isOnline (run_monitor False [PingResult True]) = True"
  using C9_latest_signal_wins[of True "[WindowOnline]" "PingResult False"]
        C9_latest_signal_wins[of False "[]" "PingResult True"]
  by simp

text \<open>
  C10, as stated, fails in its last clause: a payload whose \<open>tenantId\<close> is the empty
  string differs from the authenticated tenant \<open>t1\<close>, yet the message is not refused;
  the guard \<open>data.tenantId && ...\<close> takes the empty string for an absent field. The
  message is routed, with the authenticated tenant.
\<close>

theorem C10_counterexample:
  "d_tenantId empty_tenant_data = Some []
   \<and> sock_tenantId sock_u1 = ''t1''
   \<and> published (handleMessage 100 sock_u1 empty_tenant_data ''uuid-1'' 1000 idle)
       = [(''room:t1:r1'',
           \<lparr>messageId = ''uuid-1'', msg_type = ''chat.message'', interactionClass = CLASS_C,
            tenantId = ''t1'', senderId = ''u1'', recipientId = None, roomId = Some ''r1'',
            payload = JObj ''text'', timestamp = 1000, metadata = JUndefined\<rparr>)]
   \<and> emitted (handleMessage 100 sock_u1 empty_tenant_data ''uuid-1'' 1000 idle)
       = [(''s1'', EvMessageAck ''uuid-1'')]
   \<and> logger (handleMessage 100 sock_u1 empty_tenant_data ''uuid-1'' 1000 idle) = []"
proof -
  have "handleMessage 100 sock_u1 empty_tenant_data ''uuid-1'' 1000 idle
     = idle\<lparr>rate_limit := (rate_limit idle)
              (''rate_limit:'' @ socket_id sock_u1 := rate_limit idle (''rate_limit:'' @ socket_id sock_u1) + 1),
           published := published idle
             @ [(''room:'' @ sock_tenantId sock_u1 @ '':'' @ ''r1'',
                 \<lparr>messageId = ''uuid-1'', msg_type = ''chat.message'',
                  interactionClass = (case d_interactionClass empty_tenant_data of Some c \<Rightarrow> c | None \<Rightarrow> CLASS_C),
                  tenantId = sock_tenantId sock_u1, senderId = sock_userId sock_u1,
                  recipientId = d_recipientId empty_tenant_data, roomId = Some ''r1'',
                  payload = d_payload empty_tenant_data, timestamp = 1000,
                  metadata = d_metadata empty_tenant_data\<rparr>)],
           emitted := emitted idle @ [(socket_id sock_u1, EvMessageAck ''uuid-1'')]\<rparr>"
    by (rule handle_room_data) (simp_all add: empty_tenant_data_def room_data_def idle_def)
  then show ?thesis
    by (simp add: empty_tenant_data_def room_data_def idle_def sock_u1_def)
qed

text \<open>
  C10, amended. A message the service accepts carries \<open>tenantId\<close> and \<open>senderId\<close>
  from the authenticated socket and the \<open>messageId\<close> the server generated; changing
  the payload's \<open>tenantId\<close>, \<open>senderId\<close> and \<open>messageId\<close> fields, as long as the
  message is still accepted, does not change the message built; what \<open>handleMessage\<close>
  publishes is nothing or one message with these three fields; and a payload
  \<open>tenantId\<close> that is non-empty and differs from the authenticated tenant causes
  refusal.
\<close>

theorem C10_identity_from_socket:
  "(validateMessage sock data uuid now = Inr m \<longrightarrow>
      tenantId m = sock_tenantId sock \<and> senderId m = sock_userId sock \<and> messageId m = uuid)
   \<and> (validateMessage sock data uuid now = Inr m \<longrightarrow>
      validateMessage sock (data\<lparr>d_tenantId := t, d_senderId := s, d_messageId := i\<rparr>) uuid now
        = Inr m' \<longrightarrow> m' = m)
   \<and> (published (handleMessage lim sock data uuid now st) = published st
      \<or> (\<exists>routed channel.
            published (handleMessage lim sock data uuid now st) = published st @ [(channel, routed)]
            \<and> tenantId routed = sock_tenantId sock \<and> senderId routed = sock_userId sock
            \<and> messageId routed = uuid))
   \<and> (str_truthy t' \<longrightarrow> t' \<noteq> Some (sock_tenantId sock) \<longrightarrow>
        refused sock st (handleMessage lim sock (data\<lparr>d_tenantId := t'\<rparr>) uuid now st))"
proof (intro conjI impI)
  assume "validateMessage sock data uuid now = Inr m"
  then show "tenantId m = sock_tenantId sock" "senderId m = sock_userId sock" "messageId m = uuid"
    using validate_accepts by blast+
next
  assume a: "validateMessage sock data uuid now = Inr m"
    and b: "validateMessage sock (data\<lparr>d_tenantId := t, d_senderId := s, d_messageId := i\<rparr>) uuid now
              = Inr m'"
  have "validateMessage sock (data\<lparr>d_tenantId := t, d_senderId := s, d_messageId := i\<rparr>) uuid now
          = validateMessage sock (data\<lparr>d_tenantId := t\<rparr>) uuid now"
    by (simp add: validateMessage_def)
  with b have "validateMessage sock (data\<lparr>d_tenantId := t\<rparr>) uuid now = Inr m'"
    by simp
  with a show "m' = m"
    by (rule validate_tenant_field)
next
  show "published (handleMessage lim sock data uuid now st) = published st
      \<or> (\<exists>routed channel.
            published (handleMessage lim sock data uuid now st) = published st @ [(channel, routed)]
            \<and> tenantId routed = sock_tenantId sock \<and> senderId routed = sock_userId sock
            \<and> messageId routed = uuid)"
    using handle_published[of lim sock data uuid now st] validate_accepts[of sock data uuid now]
    by blast
next
  assume "str_truthy t'" "t' \<noteq> Some (sock_tenantId sock)"
  then show "refused sock st (handleMessage lim sock (data\<lparr>d_tenantId := t'\<rparr>) uuid now st)"
    by (intro handle_foreign_tenant) simp_all
qed

theorem C10_identity_from_socket_witness:
  "(\<exists>m. validateMessage sock_u1 room_data ''uuid-1'' 1000 = Inr m
        \<and> validateMessage sock_u1
            (room_data\<lparr>d_tenantId := Some ''t1'', d_senderId := Some ''u9'',
                        d_messageId := Some ''forged''\<rparr>) ''uuid-1'' 1000 = Inr m
        \<and> tenantId m = ''t1'' \<and> senderId m = ''u1'' \<and> messageId m = ''uuid-1'')
   \<and> str_truthy (Some ''t2'') \<and> Some ''t2'' \<noteq> Some (sock_tenantId sock_u1)
   \<and> refused sock_u1 idle
        (handleMessage 100 sock_u1 (room_data\<lparr>d_tenantId := Some ''t2''\<rparr>) ''uuid-1'' 1000 idle)"
proof -
  obtain m where m: "validateMessage sock_u1 room_data ''uuid-1'' 1000 = Inr m"
    by (simp add: validateMessage_def room_data_def)
  obtain m' where m': "validateMessage sock_u1
            (room_data\<lparr>d_tenantId := Some ''t1'', d_senderId := Some ''u9'',
                        d_messageId := Some ''forged''\<rparr>) ''uuid-1'' 1000 = Inr m'"
    by (simp add: validateMessage_def room_data_def sock_u1_def)
  have h: "str_truthy (Some ''t2'')" "Some ''t2'' \<noteq> Some (sock_tenantId sock_u1)"
    by (simp_all add: sock_u1_def)
  note t = C10_identity_from_socket
             [where sock = sock_u1 and data = room_data and uuid = "''uuid-1''" and now = 1000
                and m = m and m' = m' and t = "Some ''t1''" and s = "Some ''u9''"
                and i = "Some ''forged''" and t' = "Some ''t2''" and st = idle and lim = 100]
  from t m m' have "m' = m" by blast
  moreover from t m have "tenantId m = ''t1'' \<and> senderId m = ''u1'' \<and> messageId m = ''uuid-1''"
    by (simp add: sock_u1_def)
  moreover from t h have "refused sock_u1 idle
        (handleMessage 100 sock_u1 (room_data\<lparr>d_tenantId := Some ''t2''\<rparr>) ''uuid-1'' 1000 idle)"
    by blast
  ultimately show ?thesis
    using m m' h by auto
qed

end
